theory Spec2Isabelle
  imports Complex_Main "HOL-Library.Sublist"
begin

section \<open>Visualization layer (python/wind\_turbine/visualize.py)\<close>

text \<open>
  Python floats are modelled as real numbers: every formula below is the exact
  real-valued reading of the floating-point expression in the source, in the source's
  order of operations. Rounding, overflow and NaN are outside the model.
\<close>

subsection \<open>numpy.linspace\<close>

text \<open>
  \<^verbatim>\<open>np.linspace(start, stop, num)\<close> with the default \<^verbatim>\<open>endpoint=True\<close>: \<open>num\<close>
  evenly spaced samples, the first \<open>start\<close>, the last \<open>stop\<close>; one sample gives
  \<open>[start]\<close>, none gives the empty array.
\<close>

definition linspace :: "real \<Rightarrow> real \<Rightarrow> nat \<Rightarrow> real list" where
  "linspace start stop num =
     (if num = 1 then [start]
      else map (\<lambda>i. start + real i * ((stop - start) / real (num - 1))) [0..<num])"

subsection \<open>plot\_tsr\_analysis: the Cp-vs-TSR curve (lines 52--63)\<close>

text \<open>
  \<^verbatim>\<open>
  tsr_range = np.linspace(1, 15, 100)
  cp_values = []
  for tsr in tsr_range:
      a, b, c = 0.5, 0.3, 0.02
      cp = a * tsr * (1.0 - b * tsr + c * tsr**2)
      cp_values.append(max(0, cp))
  \<close>
\<close>

definition tsr_range :: "real list" where
  "tsr_range = linspace 1 15 100"

definition plot_tsr_analysis_cp :: "real \<Rightarrow> real" where
  "plot_tsr_analysis_cp t =
     (let a = 0.5; b = 0.3; c = 0.02;
          cp = a * t * (1.0 - b * t + c * t ^ 2)
      in max 0 cp)"

definition cp_values :: "real list" where
  "cp_values = map plot_tsr_analysis_cp tsr_range"

subsection \<open>plot\_tsr\_analysis: the RPM curves (lines 73--81)\<close>

text \<open>
  \<^verbatim>\<open>
  wind_speeds_range = np.linspace(2, 20, 100)
  for tsr in [6, 7, 8, 9, 10]:
      rpm_values = []
      for v in wind_speeds_range:
          omega = tsr * v / blade_radius  # rad/s
          rpm = omega * 60.0 / (2.0 * np.pi)
          rpm_values.append(rpm)
  \<close>
  \<open>v\<close> is a \<^verbatim>\<open>numpy.float64\<close>, so \<^verbatim>\<open>tsr * v / blade_radius\<close> is numpy scalar
  arithmetic: a zero divisor raises nothing, it yields \<open>inf\<close> or \<open>nan\<close> (with a
  RuntimeWarning), which the later arithmetic carries along. A value that is not a
  real number is \<open>NotFinite\<close> here. The function has no check on \<open>blade_radius\<close>.
\<close>

datatype np_float = Finite real | NotFinite

definition wind_speeds_range :: "real list" where
  "wind_speeds_range = linspace 2 20 100"

definition plot_tsr_analysis_rpm :: "real \<Rightarrow> real \<Rightarrow> real \<Rightarrow> np_float" where
  "plot_tsr_analysis_rpm t v blade_radius =
     (if blade_radius = 0 then NotFinite
      else (let omega = t * v / blade_radius
            in Finite (omega * 60.0 / (2.0 * pi))))"

definition rpm_values :: "real \<Rightarrow> real \<Rightarrow> np_float list" where
  "rpm_values blade_radius t =
     map (\<lambda>v. plot_tsr_analysis_rpm t v blade_radius) wind_speeds_range"

definition rpm_curves :: "real \<Rightarrow> np_float list list" where
  "rpm_curves blade_radius = map (rpm_values blade_radius) [6, 7, 8, 9, 10]"

subsection \<open>power\_curve (lines 5--15)\<close>

text \<open>
  \<^verbatim>\<open>
  def power_curve(cfg, min_v=0.0, max_v=25.0, steps=200):
      v = np.linspace(min_v, max_v, steps)
      area = np.pi * cfg['blade_radius']**2
      # Simplified: Cp = 0.4, rotor speed ~ TSR * V / R
      tsr = 7.0
      cp = 0.4
      power = cp * 0.5 * cfg['air_density'] * area * v**3
      # Cut-in/out clipping
      power[(v < cfg['cut_in']) | (v > cfg['cut_out'])] = 0
      return pd.DataFrame({"wind_speed": v, "power": power})
  \<close>
  \<open>cfg\<close> is a dict: a missing key raises \<open>KeyError\<close>, in the order in which the
  source reads the keys. The returned frame is the list of its rows
  \<open>(wind_speed, power)\<close>.
\<close>

datatype py_error = KeyError string

definition power_curve_tsr :: real where
  "power_curve_tsr = 7.0"

definition power_curve_cp :: real where
  "power_curve_cp = 0.4"

definition power_curve ::
  "(string \<rightharpoonup> real) \<Rightarrow> real \<Rightarrow> real \<Rightarrow> nat \<Rightarrow> py_error + (real \<times> real) list" where
  "power_curve cfg min_v max_v steps =
     (let v = linspace min_v max_v steps in
      case cfg ''blade_radius'' of
        None \<Rightarrow> Inl (KeyError ''blade_radius'')
      | Some r \<Rightarrow>
          (let area = pi * r ^ 2 in
           case cfg ''air_density'' of
             None \<Rightarrow> Inl (KeyError ''air_density'')
           | Some rho \<Rightarrow>
               (let power = map (\<lambda>x. power_curve_cp * 0.5 * rho * area * x ^ 3) v in
                case cfg ''cut_in'' of
                  None \<Rightarrow> Inl (KeyError ''cut_in'')
                | Some ci \<Rightarrow>
                    (case cfg ''cut_out'' of
                       None \<Rightarrow> Inl (KeyError ''cut_out'')
                     | Some co \<Rightarrow>
                         Inr (zip v (map2 (\<lambda>x p. if x < ci \<or> x > co then 0 else p)
                                       v power))))))"

text \<open>The configuration of \<open>visualization_example\<close> in example.py.\<close>

definition example_cfg :: "string \<rightharpoonup> real" where
  "example_cfg = [''blade_radius'' \<mapsto> 0.6, ''air_density'' \<mapsto> 1.225,
                  ''cut_in'' \<mapsto> 2.5, ''cut_out'' \<mapsto> 25.0]"

section \<open>Data model of the solver interface (module wind\_calc)\<close>

text \<open>
  The front-ends build their input from \<^verbatim>\<open>wind_calc.Env\<close>, \<^verbatim>\<open>wind_calc.Constraints\<close>,
  \<^verbatim>\<open>wind_calc.GeneratorType\<close> and \<^verbatim>\<open>wind_calc.PyTurbineConfig\<close> (cli.py lines 20--28,
  gui.py lines 35--44, test\_models.py), with the keyword arguments that are the
  fields below.
\<close>

datatype GeneratorType = Brushed | Brushless

record Env =
  air_density :: real
  wind_speed :: real

record Constraints =
  blade_radius :: real
  num_blades :: int
  generator_type :: GeneratorType

record TurbineConfig =
  target_wattage :: real
  env :: Env
  constraints :: Constraints

text \<open>
  \<^verbatim>\<open>solver.design_summary()\<close> returns a Python dict (test\_models.py indexes it by
  key); its values are floats and, for the generator type, a string.
\<close>

datatype py_value = Float real | Str string

type_synonym summary_dict = "(string \<times> py_value) list"

text \<open>Modelled from the spec: the error kinds of the solver (section 7), which the
  Python sources only catch as \<^verbatim>\<open>Exception\<close>. \<open>InvalidInput\<close> carries the offending
  field name, \<open>InfeasibleDesign\<close> carries \<open>P_max\<close>.\<close>

datatype error = InvalidInput string | InfeasibleDesign real | SolverDidNotConverge

type_synonym solver = "TurbineConfig \<Rightarrow> error + summary_dict"

section \<open>Command-line tool (python/wind\_turbine/cli.py)\<close>

subsection \<open>str.replace\<close>

text \<open>
  Python's \<^verbatim>\<open>s.replace(old, new)\<close>: every non-overlapping occurrence of \<open>old\<close>,
  found from the left, is replaced by \<open>new\<close>; an empty \<open>old\<close> matches before every
  character and at the end.
\<close>

function str_replace :: "string \<Rightarrow> string \<Rightarrow> string \<Rightarrow> string" where
  "str_replace old new [] = (if old = [] then new else [])"
| "str_replace old new (c # cs) =
     (if old = [] then new @ c # str_replace old new cs
      else if prefix old (c # cs)
           then new @ str_replace old new (drop (length old) (c # cs))
           else c # str_replace old new cs)"
  by pat_completeness auto
termination
  by (relation "measure (\<lambda>(old, new, s). length s)") auto

subsection \<open>The design command (lines 18--39)\<close>

text \<open>
  \<^verbatim>\<open>
  def design(wattage, air_density, wind_speed, radius, blades, generator, output):
      cfg = wind_calc.PyTurbineConfig(
          target_wattage=wattage,
          env=wind_calc.Env(air_density=air_density, wind_speed=wind_speed),
          constraints=wind_calc.Constraints(
              blade_radius=radius, num_blades=blades,
              generator_type=wind_calc.GeneratorType.Brushless
                  if generator == "brushless" else wind_calc.GeneratorType.Brushed))
      solver = wind_calc.PySolver(cfg)
      summary = solver.design_summary()
      with open(output, "w") as f:
          json.dump(summary, f, indent=2)
      click.echo(f"Design written to {output}")
      df = pd.DataFrame([summary])
      df.to_csv(output.replace(".json", ".csv"), index=False)
      click.echo(f"CSV written to {output.replace('.json', '.csv')}")
  \<close>
  The file system is a map from paths to file contents; a file written by
  \<^verbatim>\<open>json.dump\<close> holds a JSON object with the dict's items, a file written by
  \<^verbatim>\<open>to_csv\<close> holds a table with the dict's keys as header and one row of values.
  Writing to a path replaces what was there. The extension module \<^verbatim>\<open>wind_calc\<close> is a
  parameter (\<open>solver\<close>); an error it raises leaves the command before any file is
  written. Failures of the file system itself are outside the model.
\<close>

datatype file_content =
  JsonObject "(string \<times> py_value) list"
  | CsvTable "string list" "py_value list list"

type_synonym filesystem = "string \<rightharpoonup> file_content"

definition cli_config :: "real \<Rightarrow> real \<Rightarrow> real \<Rightarrow> real \<Rightarrow> int \<Rightarrow> string \<Rightarrow> TurbineConfig" where
  "cli_config wattage air_dens wind_spd radius blades generator =
     \<lparr>target_wattage = wattage,
      env = \<lparr>air_density = air_dens, wind_speed = wind_spd\<rparr>,
      constraints = \<lparr>blade_radius = radius, num_blades = blades,
        generator_type = (if generator = ''brushless'' then Brushless else Brushed)\<rparr>\<rparr>"

definition design ::
  "solver \<Rightarrow> real \<Rightarrow> real \<Rightarrow> real \<Rightarrow> real \<Rightarrow> int \<Rightarrow> string \<Rightarrow> string \<Rightarrow> filesystem
     \<Rightarrow> error + (filesystem \<times> string list)" where
  "design solver wattage air_dens wind_spd radius blades generator output fs =
     (let cfg = cli_config wattage air_dens wind_spd radius blades generator in
      case solver cfg of
        Inl e \<Rightarrow> Inl e
      | Inr summary \<Rightarrow>
          (let fs1 = fs(output \<mapsto> JsonObject summary);
               echo1 = ''Design written to '' @ output;
               csv_path = str_replace ''.json'' ''.csv'' output;
               fs2 = fs1(csv_path \<mapsto> CsvTable (map fst summary) [map snd summary]);
               echo2 = ''CSV written to '' @ str_replace ''.json'' ''.csv'' output
           in Inr (fs2, [echo1, echo2])))"

text \<open>
  A summary with the eight keys that test\_models.py expects, and a solver that returns
  it, to run the command on.
\<close>

definition example_summary :: summary_dict where
  "example_summary =
     [(''rotor_area'', Float (pi * 0.5\<^sup>2)), (''blade_length'', Float 0.5),
      (''tsr'', Float 6), (''rpm'', Float 700), (''gear_ratio'', Float 0.5),
      (''generator_type'', Str ''Brushless''), (''cut_in'', Float 2.5),
      (''cut_out'', Float 25.0)]"

definition example_solver :: solver where
  "example_solver cfg = Inr example_summary"

section \<open>Desktop form (python/wind\_turbine/gui.py)\<close>

text \<open>
  The form has five line edits (lines 13--17) and a Generate button; there is no widget
  for the generator type. \<open>generate\<close> (lines 33--53):
  \<^verbatim>\<open>
  try:
      cfg = wind_calc.PyTurbineConfig(
          target_wattage=float(self.wattage.text()),
          env=wind_calc.Env(air_density=float(self.air_density.text()),
                            wind_speed=float(self.wind_speed.text())),
          constraints=wind_calc.Constraints(
              blade_radius=float(self.radius.text()),
              num_blades=int(self.blades.text()),
              generator_type=wind_calc.GeneratorType.Brushless))
      solver = wind_calc.PySolver(cfg)
      summary = solver.design_summary()
  except Exception as e:
      QMessageBox.critical(self, "Error", str(e))
      return
  msg = json.dumps(summary, indent=2)
  QMessageBox.information(self, "Design Summary", msg)
  \<close>
  Python's \<^verbatim>\<open>float\<close> and \<^verbatim>\<open>int\<close> on a text are parameters (\<open>None\<close>: the text does not
  parse and \<open>ValueError\<close> is raised); the arguments are evaluated in the order written, so
  the first text that does not parse decides the error. A dialog is modelled by its kind
  and by the value whose text it shows.
\<close>

record DesignApp =
  wattage :: string
  air_density :: string
  wind_speed :: string
  radius :: string
  blades :: string

datatype exception = ValueError string | SolverError error

datatype dialog = Critical exception | Information summary_dict

definition DesignApp_init :: DesignApp where
  "DesignApp_init =
     \<lparr>wattage = ''50'', air_density = ''1.225'', wind_speed = ''6'', radius = ''0.5'',
      blades = ''3''\<rparr>"

definition gui_config ::
  "(string \<Rightarrow> real option) \<Rightarrow> (string \<Rightarrow> int option) \<Rightarrow> DesignApp \<Rightarrow> exception + TurbineConfig" where
  "gui_config py_float py_int self =
     (case py_float (wattage self) of
        None \<Rightarrow> Inl (ValueError (wattage self))
      | Some w \<Rightarrow>
     (case py_float (DesignApp.air_density self) of
        None \<Rightarrow> Inl (ValueError (DesignApp.air_density self))
      | Some ad \<Rightarrow>
     (case py_float (DesignApp.wind_speed self) of
        None \<Rightarrow> Inl (ValueError (DesignApp.wind_speed self))
      | Some ws \<Rightarrow>
     (case py_float (radius self) of
        None \<Rightarrow> Inl (ValueError (radius self))
      | Some r \<Rightarrow>
     (case py_int (blades self) of
        None \<Rightarrow> Inl (ValueError (blades self))
      | Some b \<Rightarrow>
          Inr \<lparr>target_wattage = w,
               env = \<lparr>Env.air_density = ad, Env.wind_speed = ws\<rparr>,
               constraints = \<lparr>blade_radius = r, num_blades = b,
                               generator_type = Brushless\<rparr>\<rparr>)))))"

definition generate ::
  "(string \<Rightarrow> real option) \<Rightarrow> (string \<Rightarrow> int option) \<Rightarrow> solver \<Rightarrow> DesignApp \<Rightarrow> dialog" where
  "generate py_float py_int solver self =
     (case gui_config py_float py_int self of
        Inl e \<Rightarrow> Critical e
      | Inr cfg \<Rightarrow>
          (case solver cfg of
             Inl e \<Rightarrow> Critical (SolverError e)
           | Inr summary \<Rightarrow> Information summary))"

text \<open>
  The values of Python's \<^verbatim>\<open>float\<close> and \<^verbatim>\<open>int\<close> on the texts the form starts with;
  these two tables stand for the built-ins where a property is evaluated on that form.
  A text outside the tables does not parse here; the one used below is \<open>abc\<close>, which
  \<^verbatim>\<open>float\<close> rejects with \<open>ValueError\<close>.
\<close>

definition initial_float :: "string \<Rightarrow> real option" where
  "initial_float = map_of [(''50'', 50), (''1.225'', 1.225), (''6'', 6), (''0.5'', 0.5)]"

definition initial_int :: "string \<Rightarrow> int option" where
  "initial_int = map_of [(''3'', 3)]"

section \<open>Design solver (extension module wind\_calc)\<close>

text \<open>
  The solver behind \<^verbatim>\<open>wind_calc.PySolver(cfg).design_summary()\<close> is a compiled
  extension module (build.py builds it from the directory \<^verbatim>\<open>rust\<close>); the Python sources
  hold only its callers and tests. The definitions of this section follow sections 3,
  4 and 7 of the specification instead. What the specification leaves to the
  implementation (the Cp curve, its maximiser, the nominal generator speeds) is a
  parameter of the model.
\<close>

text \<open>Modelled from the spec: the output record \<open>DesignSummary\<close> of section 3 (the
  record type of the missing solver).\<close>

record DesignSummary =
  rotor_area :: real
  blade_length :: real
  tsr :: real
  rpm :: real
  gear_ratio :: real
  generator_type :: GeneratorType
  cut_in :: real
  cut_out :: real

text \<open>Modelled from the spec: the aerodynamic model of section 4.1 and the design
  constants of section 4.2 of the missing solver. \<open>powerCoefficient\<close> is the Cp curve
  ("a model-fitting choice"), \<open>tsr_opt\<close> the TSR that maximises it (step 3 finds it by
  a bounded unimodal maximisation), \<open>nominalGeneratorRpm\<close> the fixed lookup of step 6.\<close>

record AeroModel =
  powerCoefficient :: "real \<Rightarrow> real"
  tsr_opt :: real
  nominalGeneratorRpm :: "GeneratorType \<Rightarrow> real"

text \<open>Modelled from the spec: the lower end \<open>TSR_MIN\<close> of the TSR domain of section
  4.1 (recommended 1) of the missing solver.\<close>

definition TSR_MIN :: real where
  "TSR_MIN = 1"

text \<open>Modelled from the spec: the upper end \<open>TSR_MAX\<close> of the TSR domain of section
  4.1 (recommended 15) of the missing solver.\<close>

definition TSR_MAX :: real where
  "TSR_MAX = 15"

text \<open>Modelled from the spec: the convergence tolerance of step 4 of section 4.2 of
  the missing solver, as a fraction of the target wattage ("e.g. 1e-4").\<close>

definition TOLERANCE :: real where
  "TOLERANCE = 1 / 10000"

text \<open>Modelled from the spec: the iteration cap of step 4 of section 4.2 of the
  missing solver ("e.g. 100").\<close>

definition MAX_ITERATIONS :: nat where
  "MAX_ITERATIONS = 100"

text \<open>Modelled from the spec: the cut-in speed of step 7 of section 4.2 of the missing
  solver (2.5 m/s).\<close>

definition CUT_IN :: real where
  "CUT_IN = 2.5"

text \<open>Modelled from the spec: the cut-out speed of step 7 of section 4.2 of the
  missing solver (25.0 m/s).\<close>

definition CUT_OUT :: real where
  "CUT_OUT = 25.0"

text \<open>Modelled from the spec: the input validation of the missing solver (section 7,
  \<open>InvalidInput\<close>; step 1 of section 4.2: "reject on first violation"), in the order
  in which section 7 lists the fields. The result is the name of the first offending
  field.\<close>

definition validate :: "TurbineConfig \<Rightarrow> string option" where
  "validate cfg =
     (if Env.air_density (env cfg) \<le> 0 then Some ''air_density''
      else if Env.wind_speed (env cfg) \<le> 0 then Some ''wind_speed''
      else if blade_radius (constraints cfg) \<le> 0 then Some ''blade_radius''
      else if num_blades (constraints cfg) < 1 then Some ''num_blades''
      else if target_wattage cfg \<le> 0 then Some ''target_wattage''
      else None)"

text \<open>Modelled from the spec: \<open>availablePower\<close> of section 4.1 of the missing solver,
  \<open>P = Cp(tsr) \<cdot> 0.5 \<cdot> air_density \<cdot> area \<cdot> wind_speed\<^sup>3\<close>.\<close>

definition availablePower :: "(real \<Rightarrow> real) \<Rightarrow> real \<Rightarrow> Env \<Rightarrow> real \<Rightarrow> real" where
  "availablePower Cp t e area = Cp t * 0.5 * Env.air_density e * area * Env.wind_speed e ^ 3"

text \<open>Modelled from the spec: \<open>shaftRpm\<close> of section 4.1 of the missing solver,
  \<open>\<omega> = tsr \<cdot> wind_speed / radius\<close>, \<open>rpm = \<omega> \<cdot> 60 / (2\<pi>)\<close>, failing (\<open>None\<close>) when
  \<open>radius \<le> 0\<close>.\<close>

definition shaftRpm :: "real \<Rightarrow> real \<Rightarrow> real \<Rightarrow> real option" where
  "shaftRpm t ws rad =
     (if rad \<le> 0 then None
      else (let omega = t * ws / rad in Some (omega * 60 / (2 * pi))))"

text \<open>Modelled from the spec: the rotor area of step 2 of section 4.2 of the missing
  solver, \<open>\<pi> \<cdot> blade_radius\<^sup>2\<close>.\<close>

definition rotorArea :: "Constraints \<Rightarrow> real" where
  "rotorArea c = pi * (blade_radius c)\<^sup>2"

text \<open>Modelled from the spec: the maximum achievable power \<open>P_max\<close> of step 3 of
  section 4.2 of the missing solver, the available power at \<open>tsr_opt\<close>.\<close>

definition P_max :: "AeroModel \<Rightarrow> Env \<Rightarrow> Constraints \<Rightarrow> real" where
  "P_max m e c = availablePower (powerCoefficient m) (tsr_opt m) e (rotorArea c)"

text \<open>Modelled from the spec: the bracketed root search of step 4 of section 4.2 of
  the missing solver, as a bisection on the bracket \<open>[lo, hi]\<close>. The midpoint is
  accepted as soon as the absolute power error is below \<open>TOLERANCE \<cdot> target\<close>;
  otherwise the half of the bracket that holds the root on a rising curve is kept. The
  last argument counts the iterations that are left; when none is left the midpoint is
  accepted if it is within tolerance, else the search fails (\<open>None\<close>).\<close>

fun bisect :: "(real \<Rightarrow> real) \<Rightarrow> real \<Rightarrow> real \<Rightarrow> real \<Rightarrow> nat \<Rightarrow> real option" where
  "bisect P target lo hi 0 =
     (let mid = (lo + hi) / 2
      in if \<bar>P mid - target\<bar> < TOLERANCE * target then Some mid else None)"
| "bisect P target lo hi (Suc n) =
     (let mid = (lo + hi) / 2
      in if \<bar>P mid - target\<bar> < TOLERANCE * target then Some mid
         else if P mid < target then bisect P target mid hi n
         else bisect P target lo mid n)"

text \<open>Modelled from the spec: the algorithm of section 4.2 of the missing solver,
  steps 1 to 8, with the classified errors of section 7.\<close>

definition solve :: "AeroModel \<Rightarrow> TurbineConfig \<Rightarrow> error + DesignSummary" where
  "solve m cfg =
     (case validate cfg of
        Some field \<Rightarrow> Inl (InvalidInput field)
      | None \<Rightarrow>
          (let e = env cfg; c = constraints cfg;
               area = rotorArea c;
               P = (\<lambda>t. availablePower (powerCoefficient m) t e area);
               pmax = P_max m e c
           in if target_wattage cfg > pmax then Inl (InfeasibleDesign pmax)
              else
                (case bisect P (target_wattage cfg) TSR_MIN (tsr_opt m) MAX_ITERATIONS of
                   None \<Rightarrow> Inl SolverDidNotConverge
                 | Some t \<Rightarrow>
                     (case shaftRpm t (Env.wind_speed e) (blade_radius c) of
                        None \<Rightarrow> Inl (InvalidInput ''blade_radius'')
                      | Some n \<Rightarrow>
                          Inr \<lparr>rotor_area = area,
                               blade_length = blade_radius c,
                               tsr = t,
                               rpm = n,
                               gear_ratio = n / nominalGeneratorRpm m (Constraints.generator_type c),
                               generator_type = Constraints.generator_type c,
                               cut_in = CUT_IN,
                               cut_out = CUT_OUT\<rparr>))))"

text \<open>Modelled from the spec: which field names section 7 counts as offending in a
  configuration (used to state that the reported name is one of them).\<close>

definition offending :: "TurbineConfig \<Rightarrow> string \<Rightarrow> bool" where
  "offending cfg field =
     (field = ''air_density'' \<and> Env.air_density (env cfg) \<le> 0
      \<or> field = ''wind_speed'' \<and> Env.wind_speed (env cfg) \<le> 0
      \<or> field = ''blade_radius'' \<and> blade_radius (constraints cfg) \<le> 0
      \<or> field = ''num_blades'' \<and> num_blades (constraints cfg) < 1
      \<or> field = ''target_wattage'' \<and> target_wattage cfg \<le> 0)"

text \<open>Modelled from the spec: how finely the root search of step 4 can resolve a
  target, for a Cp curve whose rising branch is Lipschitz with constant \<open>L\<close>: after
  \<open>MAX_ITERATIONS\<close> halvings of \<open>[TSR_MIN, tsr_opt]\<close> the power error is at most this
  fraction of \<open>P_max\<close>, relative to the tolerance. A target that is a larger fraction of
  \<open>P_max\<close> than this is within reach of the iteration cap.\<close>

definition resolution :: "AeroModel \<Rightarrow> real \<Rightarrow> real" where
  "resolution m L =
     L * (tsr_opt m - TSR_MIN)
       / (TOLERANCE * 2 ^ MAX_ITERATIONS * powerCoefficient m (tsr_opt m))"

text \<open>Modelled from the spec: what section 4.1 requires of the Cp curve, for a
  model \<open>m\<close>: \<open>tsr_opt\<close> lies in the TSR domain above \<open>TSR_MIN\<close>; Cp is not negative
  at \<open>TSR_MIN\<close>, monotonically increasing on \<open>[TSR_MIN, tsr_opt]\<close> to a larger value
  and monotonically decreasing on \<open>[tsr_opt, TSR_MAX]\<close> (single maximum). "Smooth" is
  given a number: on the rising branch Cp is Lipschitz with constant \<open>L\<close>, and the
  iteration cap of the root search resolves targets below \<open>P_max\<close>
  (\<open>resolution m L < 1\<close>).\<close>

definition well_posed :: "AeroModel \<Rightarrow> real \<Rightarrow> bool" where
  "well_posed m L =
     (TSR_MIN < tsr_opt m \<and> tsr_opt m \<le> TSR_MAX
      \<and> 0 \<le> powerCoefficient m TSR_MIN
      \<and> powerCoefficient m TSR_MIN < powerCoefficient m (tsr_opt m)
      \<and> (\<forall>x y. TSR_MIN \<le> x \<and> x \<le> y \<and> y \<le> tsr_opt m \<longrightarrow>
             powerCoefficient m x \<le> powerCoefficient m y
             \<and> powerCoefficient m y - powerCoefficient m x \<le> L * (y - x))
      \<and> (\<forall>x y. tsr_opt m \<le> x \<and> x \<le> y \<and> y \<le> TSR_MAX \<longrightarrow>
             powerCoefficient m y \<le> powerCoefficient m x)
      \<and> resolution m L < 1)"

text \<open>
  An aerodynamic model that meets section 4.1, to evaluate the solver on: Cp is the
  parabola \<open>0.52 - 0.01 (tsr - 8)\<^sup>2\<close> clamped at 0, with its maximum 0.52 (below the
  Betz limit) at TSR 8 and the value 0.03 at both ends of the domain. The environment
  and constraints are those of the scenarios of section 8.
\<close>

definition example_Cp :: "real \<Rightarrow> real" where
  "example_Cp t = max 0 (0.52 - 0.01 * (t - 8)\<^sup>2)"

definition example_model :: AeroModel where
  "example_model =
     \<lparr>powerCoefficient = example_Cp,
      tsr_opt = 8,
      nominalGeneratorRpm = (\<lambda>g. case g of Brushed \<Rightarrow> 3000 | Brushless \<Rightarrow> 1500)\<rparr>"

definition scenario_env :: Env where
  "scenario_env = \<lparr>Env.air_density = 1.225, Env.wind_speed = 6.0\<rparr>"

definition scenario_constraints :: Constraints where
  "scenario_constraints =
     \<lparr>blade_radius = 0.5, num_blades = 3, Constraints.generator_type = Brushless\<rparr>"

section \<open>Properties of the visualization layer\<close>

lemma length_linspace: "length (linspace a b n) = n"
  by (simp add: linspace_def)

lemma linspace_nth:
  "i < n \<Longrightarrow> linspace a b n ! i = (if n = 1 then a else a + real i * ((b - a) / real (n - 1)))"
  by (auto simp: linspace_def)

lemma plot_tsr_analysis_cp_eq:
  "plot_tsr_analysis_cp t = max 0 (0.5 * t * (1 - 0.3 * t + 0.02 * t\<^sup>2))"
  by (simp add: plot_tsr_analysis_cp_def Let_def)

lemma linspace_bounds:
  assumes "a \<le> b" and "x \<in> set (linspace a b n)"
  shows "a \<le> x \<and> x \<le> b"
proof (cases "n = 1")
  case True
  with assms show ?thesis by (simp add: linspace_def)
next
  case False
  from assms(2) False obtain i where i: "i < n"
    and x: "x = a + real i * ((b - a) / real (n - 1))"
    by (auto simp: linspace_def)
  from i False have n1: "0 < real (n - 1)" by simp
  from i have "real i \<le> real (n - 1)" by simp
  with n1 have frac: "real i / real (n - 1) \<le> 1" by simp
  have nonneg: "0 \<le> real i / real (n - 1)" by simp
  have eq: "x = a + (real i / real (n - 1)) * (b - a)"
    by (simp add: x)
  have lo: "0 \<le> (real i / real (n - 1)) * (b - a)"
    using nonneg assms(1) by (intro mult_nonneg_nonneg) simp_all
  have hi: "(real i / real (n - 1)) * (b - a) \<le> 1 * (b - a)"
    using frac assms(1) by (intro mult_right_mono) simp_all
  from lo hi eq show ?thesis by simp
qed

text \<open>
  C4. Every power coefficient that \<open>plot_tsr_analysis\<close> computes is
  \<open>max(0, 0.5 tsr (1 - 0.3 tsr + 0.02 tsr\<^sup>2))\<close> at its sample \<open>tsr\<close>; the samples
  lie in \<open>[1, 15]\<close>, and the coefficient is nowhere negative there.
\<close>

theorem cp_values_formula_nonneg:
  "cp_values = map (\<lambda>t. max 0 (0.5 * t * (1 - 0.3 * t + 0.02 * t\<^sup>2))) tsr_range
   \<and> (\<forall>t \<in> set tsr_range. 1 \<le> t \<and> t \<le> 15)
   \<and> (\<forall>t. 1 \<le> t \<and> t \<le> 15 \<longrightarrow>
          plot_tsr_analysis_cp t = max 0 (0.5 * t * (1 - 0.3 * t + 0.02 * t\<^sup>2))
          \<and> 0 \<le> plot_tsr_analysis_cp t)"
proof (intro conjI allI impI ballI)
  show "cp_values = map (\<lambda>t. max 0 (0.5 * t * (1 - 0.3 * t + 0.02 * t\<^sup>2))) tsr_range"
    by (simp add: cp_values_def plot_tsr_analysis_cp_eq)
next
  fix t assume "t \<in> set tsr_range"
  then have "t \<in> set (linspace 1 15 100)" by (simp add: tsr_range_def)
  with linspace_bounds [of 1 15 t 100] show "1 \<le> t" and "t \<le> 15" by simp_all
next
  fix t :: real
  show "plot_tsr_analysis_cp t = max 0 (0.5 * t * (1 - 0.3 * t + 0.02 * t\<^sup>2))"
    by (rule plot_tsr_analysis_cp_eq)
  show "0 \<le> plot_tsr_analysis_cp t"
    by (simp add: plot_tsr_analysis_cp_eq)
qed

theorem cp_values_formula_nonneg_witness:
  "(15::real) \<in> set tsr_range \<and> (1::real) \<le> 15 \<and> (15::real) \<le> 15
   \<and> plot_tsr_analysis_cp 15 = max 0 (0.5 * 15 * (1 - 0.3 * 15 + 0.02 * 15\<^sup>2))
   \<and> 0 \<le> plot_tsr_analysis_cp 15"
proof -
  have "linspace 1 15 100 ! 99 = 15"
    by (simp add: linspace_nth)
  moreover have "linspace 1 15 100 ! 99 \<in> set (linspace 1 15 100)"
    by (rule nth_mem) (simp add: length_linspace)
  ultimately have "(15::real) \<in> set tsr_range"
    by (simp add: tsr_range_def)
  with cp_values_formula_nonneg show ?thesis by simp
qed

text \<open>
  C2. The Cp curve of \<open>plot_tsr_analysis\<close> evaluated at three of its own samples
  (the first, the 34th and the last of \<open>tsr_range\<close>): it is 0.36 at TSR 1, has fallen
  to 0 at TSR 17/3 and is back up at 7.5 at TSR 15. The curve therefore does not rise to
  one interior maximum and then fall, and its largest value is far above the Betz limit.
\<close>

theorem cp_curve_not_unimodal:
  "tsr_range ! 0 = 1 \<and> tsr_range ! 33 = 17 / 3 \<and> tsr_range ! 99 = 15
   \<and> cp_values ! 0 = 0.36 \<and> cp_values ! 33 = 0 \<and> cp_values ! 99 = 7.5
   \<and> cp_values ! 33 < cp_values ! 0 \<and> cp_values ! 33 < cp_values ! 99
   \<and> (0.593 :: real) < cp_values ! 99"
proof -
  have t0: "tsr_range ! 0 = 1" and t33: "tsr_range ! 33 = 17 / 3" and t99: "tsr_range ! 99 = 15"
    by (simp_all add: tsr_range_def linspace_nth)
  have len: "length tsr_range = 100"
    by (simp add: tsr_range_def length_linspace)
  have p0: "plot_tsr_analysis_cp 1 = 0.36"
    and p33: "plot_tsr_analysis_cp (17 / 3) = 0"
    and p99: "plot_tsr_analysis_cp 15 = 7.5"
    by (simp_all add: plot_tsr_analysis_cp_eq power2_eq_square)
  have c0: "cp_values ! 0 = 0.36"
    by (simp add: cp_values_def len t0 p0)
  have c33: "cp_values ! 33 = 0"
    by (simp add: cp_values_def len t33 p33)
  have c99: "cp_values ! 99 = 7.5"
    by (simp add: cp_values_def len t99 p99)
  from t0 t33 t99 c0 c33 c99 show ?thesis by simp
qed

text \<open>
  C5. \<open>power_curve\<close> works with the power coefficient 0.4 at its operating TSR 7,
  while the Cp curve of \<open>plot_tsr_analysis\<close> is 0 at TSR 7 (the polynomial is
  negative there and is clamped): the two functions of the module use different
  Cp models.
\<close>

theorem power_curve_cp_differs_from_cp_curve:
  "power_curve_tsr = 7 \<and> power_curve_cp = 0.4
   \<and> plot_tsr_analysis_cp power_curve_tsr = 0
   \<and> power_curve_cp \<noteq> plot_tsr_analysis_cp power_curve_tsr"
  by (simp add: power_curve_tsr_def power_curve_cp_def plot_tsr_analysis_cp_eq power2_eq_square)

lemma power_curve_rows:
  assumes "cfg ''blade_radius'' = Some r" and "cfg ''air_density'' = Some rho"
    and "cfg ''cut_in'' = Some ci" and "cfg ''cut_out'' = Some co"
  shows "power_curve cfg min_v max_v steps =
     Inr (map (\<lambda>x. (x, if x < ci \<or> x > co then 0
                         else power_curve_cp * 0.5 * rho * (pi * r\<^sup>2) * x ^ 3))
              (linspace min_v max_v steps))"
  using assms by (simp add: power_curve_def Let_def zip_map2 zip_map_map map2_map_map zip_same_conv_map)

text \<open>
  C6. When the configuration holds the four keys that \<open>power_curve\<close> reads, the
  function returns one row per sampled wind speed \<open>v\<close>; inside the operating envelope
  \<open>cut_in \<le> v \<le> cut_out\<close> the power is \<open>0.4 \<cdot> 0.5 \<cdot> air_density \<cdot> (\<pi> \<cdot> blade_radius\<^sup>2) \<cdot> v\<^sup>3\<close>,
  outside it the power is exactly 0.
\<close>

theorem power_curve_envelope:
  assumes "cfg ''blade_radius'' = Some r" and "cfg ''air_density'' = Some rho"
    and "cfg ''cut_in'' = Some ci" and "cfg ''cut_out'' = Some co"
  shows "\<exists>rows. power_curve cfg min_v max_v steps = Inr rows
     \<and> map fst rows = linspace min_v max_v steps
     \<and> (\<forall>(v, p) \<in> set rows.
           (ci \<le> v \<and> v \<le> co \<longrightarrow> p = 0.4 * 0.5 * rho * (pi * r\<^sup>2) * v ^ 3)
         \<and> (v < ci \<or> co < v \<longrightarrow> p = 0))"
proof -
  let ?rows = "map (\<lambda>x. (x, if x < ci \<or> x > co then 0
                         else power_curve_cp * 0.5 * rho * (pi * r\<^sup>2) * x ^ 3))
              (linspace min_v max_v steps)"
  have "power_curve cfg min_v max_v steps = Inr ?rows"
    using assms by (rule power_curve_rows)
  moreover have "map fst ?rows = linspace min_v max_v steps"
    by (simp add: comp_def)
  moreover have "\<forall>(v, p) \<in> set ?rows.
           (ci \<le> v \<and> v \<le> co \<longrightarrow> p = 0.4 * 0.5 * rho * (pi * r\<^sup>2) * v ^ 3)
         \<and> (v < ci \<or> co < v \<longrightarrow> p = 0)"
    by (auto simp: power_curve_cp_def)
  ultimately show ?thesis by blast
qed

theorem power_curve_envelope_witness:
  "example_cfg ''blade_radius'' = Some 0.6 \<and> example_cfg ''air_density'' = Some 1.225
   \<and> example_cfg ''cut_in'' = Some 2.5 \<and> example_cfg ''cut_out'' = Some 25
   \<and> (\<exists>rows. power_curve example_cfg 0 25 200 = Inr rows
     \<and> map fst rows = linspace 0 25 200
     \<and> (\<forall>(v, p) \<in> set rows.
           (2.5 \<le> v \<and> v \<le> 25 \<longrightarrow> p = 0.4 * 0.5 * 1.225 * (pi * 0.6\<^sup>2) * v ^ 3)
         \<and> (v < 2.5 \<or> 25 < v \<longrightarrow> p = 0)))"
proof -
  have k: "example_cfg ''blade_radius'' = Some 0.6" "example_cfg ''air_density'' = Some 1.225"
    "example_cfg ''cut_in'' = Some 2.5" "example_cfg ''cut_out'' = Some 25"
    by (simp_all add: example_cfg_def)
  from k power_curve_envelope [OF k, of 0 25 200] show ?thesis by simp
qed

text \<open>
  C7, as stated, fails for a negative radius: with \<open>blade_radius = -1\<close> the first RPM
  value of the TSR-6 curve (wind speed 2) is computed as \<open>-360/\<pi>\<close>; nothing fails.
\<close>

theorem rpm_negative_radius_no_failure:
  "wind_speeds_range ! 0 = 2
   \<and> rpm_values (- 1) 6 ! 0 = Finite (- (360 / pi))
   \<and> plot_tsr_analysis_rpm 6 2 (- 1) = Finite (- (360 / pi))"
proof -
  have w: "wind_speeds_range ! 0 = 2"
    by (simp add: wind_speeds_range_def linspace_nth)
  have len: "length wind_speeds_range = 100"
    by (simp add: wind_speeds_range_def length_linspace)
  have r: "plot_tsr_analysis_rpm 6 2 (- 1) = Finite (- (360 / pi))"
    by (simp add: plot_tsr_analysis_rpm_def Let_def)
  have "rpm_values (- 1) 6 ! 0 = Finite (- (360 / pi))"
    by (simp add: rpm_values_def len w r)
  with w r show ?thesis by simp
qed

text \<open>
  C7 (amended). For every TSR, wind speed and radius \<open>r \<noteq> 0\<close> (positive or
  negative) the RPM computed in \<open>plot_tsr_analysis\<close> is \<open>\<omega> \<cdot> 60 / (2\<pi>)\<close> with
  \<open>\<omega> = tsr \<cdot> v / r\<close>, for every point of the five plotted curves. The function
  checks nothing about the radius, so a negative radius gives the value of the same
  formula.
\<close>

theorem rpm_formula:
  assumes "r \<noteq> 0"
  shows "plot_tsr_analysis_rpm t v r = Finite ((t * v / r) * 60 / (2 * pi))
    \<and> rpm_curves r =
        map (\<lambda>t. map (\<lambda>v. Finite ((t * v / r) * 60 / (2 * pi))) (linspace 2 20 100))
            [6, 7, 8, 9, 10]"
  using assms
  by (simp add: plot_tsr_analysis_rpm_def rpm_curves_def rpm_values_def wind_speeds_range_def Let_def)

theorem rpm_formula_witness:
  "(0.5::real) \<noteq> 0 \<and> plot_tsr_analysis_rpm 6 2 0.5 = Finite ((6 * 2 / 0.5) * 60 / (2 * pi))
    \<and> rpm_curves 0.5 =
        map (\<lambda>t. map (\<lambda>v. Finite ((t * v / 0.5) * 60 / (2 * pi))) (linspace 2 20 100))
            [6, 7, 8, 9, 10]"
  using rpm_formula [of "0.5" 6 2] by simp

section \<open>Properties of the command-line tool\<close>

lemma str_replace_absent:
  assumes "old \<noteq> []" and "\<not> sublist old s"
  shows "str_replace old new s = s"
  using assms
proof (induction s)
  case Nil
  then show ?case by simp
next
  case (Cons c cs)
  from Cons.prems(2) have np: "\<not> prefix old (c # cs)" and ns: "\<not> sublist old cs"
    by (simp_all add: sublist_Cons_right)
  from Cons.IH [OF Cons.prems(1) ns] np Cons.prems(1) show ?case by simp
qed

lemma str_replace_hit:
  assumes "old \<noteq> []" and "prefix old s"
  shows "str_replace old new s = new @ str_replace old new (drop (length old) s)"
proof (cases s)
  case Nil
  with assms show ?thesis by simp
next
  case (Cons c cs)
  with assms show ?thesis by simp
qed

lemma str_replace_miss:
  assumes "old \<noteq> []" and "\<not> prefix old (c # cs)"
  shows "str_replace old new (c # cs) = c # str_replace old new cs"
  using assms by simp

lemma str_replace_prefix:
  assumes "d \<notin> set u"
  shows "prefix u (str_replace (d # old) (d # new) s) \<longleftrightarrow> prefix u s"
  using assms
proof (induction s arbitrary: u)
  case Nil
  then show ?case by simp
next
  case (Cons c cs)
  show ?case
  proof (cases u)
    case Nil
    then show ?thesis by simp
  next
    case u: (Cons a u')
    with Cons.prems have a: "a \<noteq> d" and u': "d \<notin> set u'" by auto
    show ?thesis
    proof (cases "prefix (d # old) (c # cs)")
      case True
      then have c: "c = d" by simp
      have "\<not> prefix u (c # cs)" using a c u by simp
      moreover have "\<not> prefix u (str_replace (d # old) (d # new) (c # cs))"
        unfolding str_replace_hit [OF list.distinct(2) True] using a u by simp
      ultimately show ?thesis by simp
    next
      case False
      show ?thesis
        unfolding str_replace_miss [OF list.distinct(2) False] u
        using Cons.IH [OF u'] by simp
    qed
  qed
qed

lemma str_replace_json_complete:
  "\<not> sublist ''.json'' (str_replace ''.json'' ''.csv'' s)"
proof (induction "length s" arbitrary: s rule: less_induct)
  case less
  have ne: "''.json'' \<noteq> []" by simp
  show ?case
  proof (cases s)
    case Nil
    then show ?thesis by simp
  next
    case (Cons c cs)
    show ?thesis
    proof (cases "prefix ''.json'' s")
      case True
      have "length (drop (length ''.json'') s) < length s"
        using Cons by simp
      from less [OF this]
      have IH: "\<not> sublist ''.json'' (str_replace ''.json'' ''.csv'' (drop (length ''.json'') s))" .
      show ?thesis
        unfolding str_replace_hit [OF ne True]
        using IH by (simp add: sublist_Cons_right)
    next
      case False
      then have miss: "\<not> prefix ''.json'' (c # cs)" using Cons by simp
      have "length cs < length s" using Cons by simp
      from less [OF this] have IH: "\<not> sublist ''.json'' (str_replace ''.json'' ''.csv'' cs)" .
      have "\<not> prefix ''.json'' (c # str_replace ''.json'' ''.csv'' cs)"
      proof
        assume p: "prefix ''.json'' (c # str_replace ''.json'' ''.csv'' cs)"
        from p have c: "c = CHR ''.''" by simp
        from p have "prefix ''json'' (str_replace ''.json'' ''.csv'' cs)"
          unfolding c by simp
        moreover have "CHR ''.'' \<notin> set ''json''" by simp
        ultimately have "prefix ''json'' cs"
          using str_replace_prefix [of "CHR ''.''" "''json''" "''json''" "''csv''" cs] by blast
        then have "prefix ''.json'' (c # cs)" unfolding c by simp
        with miss show False by blast
      qed
      with IH show ?thesis
        unfolding Cons str_replace_miss [OF ne miss]
        by (simp only: sublist_Cons_right) blast
    qed
  qed
qed

lemma prefix_before_separator:
  assumes "prefix u (xs @ d # ys)" and "d \<notin> set u"
  shows "prefix u xs"
  using assms by (auto simp: prefix_append prefix_Cons)

lemma str_replace_json_first:
  assumes "\<not> sublist ''.json'' p"
  shows "str_replace ''.json'' ''.csv'' (p @ ''.json'' @ rest)
           = p @ ''.csv'' @ str_replace ''.json'' ''.csv'' rest"
  using assms
proof (induction p)
  case Nil
  have ne: "''.json'' \<noteq> []" by simp
  have hit: "prefix ''.json'' (''.json'' @ rest)" by (rule prefixI) (rule refl)
  have "str_replace ''.json'' ''.csv'' (''.json'' @ rest)
      = ''.csv'' @ str_replace ''.json'' ''.csv'' (drop (length ''.json'') (''.json'' @ rest))"
    using ne hit by (rule str_replace_hit)
  also have "drop (length ''.json'') (''.json'' @ rest) = rest" by simp
  finally show ?case by simp
next
  case (Cons c p)
  have ne: "''.json'' \<noteq> []" by simp
  from Cons.prems [unfolded sublist_Cons_right]
  have np: "\<not> prefix ''.json'' (c # p)" and ns: "\<not> sublist ''.json'' p"
    by blast+
  have miss: "\<not> prefix ''.json'' (c # (p @ ''.json'' @ rest))"
  proof
    assume pre: "prefix ''.json'' (c # (p @ ''.json'' @ rest))"
    then have c: "c = CHR ''.''" by simp
    from pre have "prefix ''json'' (p @ CHR ''.'' # (''json'' @ rest))"
      unfolding c by simp
    moreover have "CHR ''.'' \<notin> set ''json''" by simp
    ultimately have "prefix ''json'' p" by (rule prefix_before_separator)
    then have "prefix ''.json'' (c # p)" unfolding c by simp
    with np show False by blast
  qed
  have "str_replace ''.json'' ''.csv'' ((c # p) @ ''.json'' @ rest)
      = str_replace ''.json'' ''.csv'' (c # (p @ ''.json'' @ rest))"
    by (simp only: append_Cons)
  also have "\<dots> = c # str_replace ''.json'' ''.csv'' (p @ ''.json'' @ rest)"
    using ne miss by (rule str_replace_miss)
  also have "\<dots> = c # (p @ ''.csv'' @ str_replace ''.json'' ''.csv'' rest)"
    by (simp only: Cons.IH [OF ns])
  finally show ?case by (simp only: append_Cons)
qed

lemma str_replace_json_segments:
  assumes "\<forall>s \<in> set ps. \<not> sublist ''.json'' s" and "\<not> sublist ''.json'' q"
  shows "str_replace ''.json'' ''.csv'' (concat (map (\<lambda>s. s @ ''.json'') ps) @ q)
           = concat (map (\<lambda>s. s @ ''.csv'') ps) @ q"
  using assms(1)
proof (induction ps)
  case Nil
  have "str_replace ''.json'' ''.csv'' q = q"
    using assms(2) by (intro str_replace_absent) simp_all
  then show ?case by simp
next
  case (Cons p ps)
  from Cons.prems have p: "\<not> sublist ''.json'' p" and rest: "\<forall>s \<in> set ps. \<not> sublist ''.json'' s"
    by simp_all
  have "str_replace ''.json'' ''.csv'' (concat (map (\<lambda>s. s @ ''.json'') (p # ps)) @ q)
      = str_replace ''.json'' ''.csv'' (p @ ''.json'' @ (concat (map (\<lambda>s. s @ ''.json'') ps) @ q))"
    by simp
  also have "\<dots> = p @ ''.csv'' @ str_replace ''.json'' ''.csv''
      (concat (map (\<lambda>s. s @ ''.json'') ps) @ q)"
    using p by (rule str_replace_json_first)
  also have "\<dots> = p @ ''.csv'' @ (concat (map (\<lambda>s. s @ ''.csv'') ps) @ q)"
    by (simp only: Cons.IH [OF rest])
  also have "\<dots> = concat (map (\<lambda>s. s @ ''.csv'') (p # ps)) @ q"
    by simp
  finally show ?case .
qed

lemma first_occurrence:
  assumes "old \<noteq> []" and "sublist old s"
  shows "\<exists>p rest. s = p @ old @ rest \<and> \<not> sublist old p"
  using assms(2)
proof (induction s)
  case Nil
  with assms(1) show ?case by simp
next
  case (Cons c cs)
  show ?case
  proof (cases "prefix old (c # cs)")
    case True
    then obtain rest where "c # cs = [] @ old @ rest" by (auto simp: prefix_def)
    moreover have "\<not> sublist old []" using assms(1) by simp
    ultimately show ?thesis by blast
  next
    case False
    with Cons.prems have "sublist old cs" by (simp add: sublist_Cons_right)
    from Cons.IH [OF this] obtain p rest where cs: "cs = p @ old @ rest"
      and p: "\<not> sublist old p" by blast
    have "\<not> prefix old (c # p)"
    proof
      assume "prefix old (c # p)"
      then have "prefix old ((c # p) @ old @ rest)" by (rule prefix_prefix)
      with False cs show False by simp
    qed
    with p have "\<not> sublist old (c # p)" by (simp add: sublist_Cons_right)
    moreover have "c # cs = (c # p) @ old @ rest" using cs by simp
    ultimately show ?thesis by blast
  qed
qed

lemma json_segments_exist:
  "\<exists>ps q. (\<forall>s \<in> set ps. \<not> sublist ''.json'' s) \<and> \<not> sublist ''.json'' q
     \<and> s = concat (map (\<lambda>s. s @ ''.json'') ps) @ q"
proof (induction "length s" arbitrary: s rule: less_induct)
  case less
  show ?case
  proof (cases "sublist ''.json'' s")
    case False
    then have "(\<forall>x \<in> set []. \<not> sublist ''.json'' x) \<and> \<not> sublist ''.json'' s
        \<and> s = concat (map (\<lambda>s. s @ ''.json'') []) @ s"
      by simp
    then show ?thesis by blast
  next
    case True
    have "''.json'' \<noteq> []" by simp
    from first_occurrence [OF this True] obtain p rest
      where s: "s = p @ ''.json'' @ rest" and p: "\<not> sublist ''.json'' p" by blast
    from s have "length rest < length s" by simp
    from less [OF this] obtain ps q
      where ps: "\<forall>x \<in> set ps. \<not> sublist ''.json'' x" and q: "\<not> sublist ''.json'' q"
        and rest: "rest = concat (map (\<lambda>s. s @ ''.json'') ps) @ q"
      by blast
    from p ps have "\<forall>x \<in> set (p # ps). \<not> sublist ''.json'' x" by simp
    moreover have "s = concat (map (\<lambda>s. s @ ''.json'') (p # ps)) @ q"
      using s rest by simp
    ultimately show ?thesis using q by blast
  qed
qed

text \<open>
  C10. The CSV path is the \<open>--output\<close> path with every occurrence of \<open>.json\<close> replaced
  by \<open>.csv\<close>. Every output path is a sequence of segments free of \<open>.json\<close>, each
  followed by \<open>.json\<close>, and a last segment; the command writes the JSON object at that
  path and then the CSV table at the path with the same segments, each followed by
  \<open>.csv\<close> instead (a path in which no \<open>.json\<close> is left). When \<open>output\<close> contains no
  \<open>.json\<close>, the CSV path is \<open>output\<close> itself: the CSV table replaces the JSON object just
  written, and the command leaves no JSON file behind (any JSON file found afterwards
  was there before, at another path).
\<close>

theorem design_csv_path:
  assumes ok: "solver (cli_config w ad ws r b g) = Inr summary"
  shows "design solver w ad ws r b g output fs =
           Inr ((fs(output \<mapsto> JsonObject summary))
                  (str_replace ''.json'' ''.csv'' output \<mapsto>
                     CsvTable (map fst summary) [map snd summary]),
                [''Design written to '' @ output,
                 ''CSV written to '' @ str_replace ''.json'' ''.csv'' output])
    \<and> (\<exists>ps q. (\<forall>s \<in> set ps. \<not> sublist ''.json'' s) \<and> \<not> sublist ''.json'' q
          \<and> output = concat (map (\<lambda>s. s @ ''.json'') ps) @ q)
    \<and> (\<forall>ps q. (\<forall>s \<in> set ps. \<not> sublist ''.json'' s) \<and> \<not> sublist ''.json'' q
          \<and> output = concat (map (\<lambda>s. s @ ''.json'') ps) @ q \<longrightarrow>
          design solver w ad ws r b g output fs =
            Inr ((fs(output \<mapsto> JsonObject summary))
                   (concat (map (\<lambda>s. s @ ''.csv'') ps) @ q \<mapsto>
                      CsvTable (map fst summary) [map snd summary]),
                 [''Design written to '' @ output,
                  ''CSV written to '' @ concat (map (\<lambda>s. s @ ''.csv'') ps) @ q]))
    \<and> \<not> sublist ''.json'' (str_replace ''.json'' ''.csv'' output)
    \<and> (\<not> sublist ''.json'' output \<longrightarrow>
          str_replace ''.json'' ''.csv'' output = output
        \<and> (\<exists>fs'. design solver w ad ws r b g output fs =
                    Inr (fs', [''Design written to '' @ output, ''CSV written to '' @ output])
              \<and> fs' = fs(output \<mapsto> CsvTable (map fst summary) [map snd summary])
              \<and> (\<forall>p items. fs' p = Some (JsonObject items) \<longrightarrow>
                     p \<noteq> output \<and> fs p = Some (JsonObject items))))"
proof (intro conjI impI allI)
  show run: "design solver w ad ws r b g output fs =
           Inr ((fs(output \<mapsto> JsonObject summary))
                  (str_replace ''.json'' ''.csv'' output \<mapsto>
                     CsvTable (map fst summary) [map snd summary]),
                [''Design written to '' @ output,
                 ''CSV written to '' @ str_replace ''.json'' ''.csv'' output])"
    unfolding design_def Let_def using ok by simp
  show "\<exists>ps q. (\<forall>s \<in> set ps. \<not> sublist ''.json'' s) \<and> \<not> sublist ''.json'' q
          \<and> output = concat (map (\<lambda>s. s @ ''.json'') ps) @ q"
    by (rule json_segments_exist)
  show "\<not> sublist ''.json'' (str_replace ''.json'' ''.csv'' output)"
    by (rule str_replace_json_complete)
  show "design solver w ad ws r b g output fs =
            Inr ((fs(output \<mapsto> JsonObject summary))
                   (concat (map (\<lambda>s. s @ ''.csv'') ps) @ q \<mapsto>
                      CsvTable (map fst summary) [map snd summary]),
                 [''Design written to '' @ output,
                  ''CSV written to '' @ concat (map (\<lambda>s. s @ ''.csv'') ps) @ q])"
    if "(\<forall>s \<in> set ps. \<not> sublist ''.json'' s) \<and> \<not> sublist ''.json'' q
          \<and> output = concat (map (\<lambda>s. s @ ''.json'') ps) @ q" for ps q
  proof -
    from that have "str_replace ''.json'' ''.csv'' output = concat (map (\<lambda>s. s @ ''.csv'') ps) @ q"
      using str_replace_json_segments [of ps q] by blast
    with run show ?thesis by (simp only:)
  qed
  assume no: "\<not> sublist ''.json'' output"
  show same: "str_replace ''.json'' ''.csv'' output = output"
    using no by (intro str_replace_absent) simp_all
  let ?fs' = "fs(output \<mapsto> CsvTable (map fst summary) [map snd summary])"
  have "design solver w ad ws r b g output fs =
          Inr (?fs', [''Design written to '' @ output, ''CSV written to '' @ output])"
    unfolding run same by simp
  moreover have "\<forall>p items. ?fs' p = Some (JsonObject items) \<longrightarrow>
                     p \<noteq> output \<and> fs p = Some (JsonObject items)"
    by (auto split: if_splits)
  ultimately show "\<exists>fs'. design solver w ad ws r b g output fs =
                    Inr (fs', [''Design written to '' @ output, ''CSV written to '' @ output])
              \<and> fs' = ?fs'
              \<and> (\<forall>p items. fs' p = Some (JsonObject items) \<longrightarrow>
                     p \<noteq> output \<and> fs p = Some (JsonObject items))"
    by blast
qed

theorem design_csv_path_witness:
  "example_solver (cli_config 50 1.225 6 0.5 3 ''brushless'') = Inr example_summary
   \<and> design example_solver 50 1.225 6 0.5 3 ''brushless'' ''out.json/summary.json'' Map.empty =
        Inr ([''out.json/summary.json'' \<mapsto> JsonObject example_summary,
              ''out.csv/summary.csv'' \<mapsto> CsvTable (map fst example_summary) [map snd example_summary]],
             [''Design written to out.json/summary.json'', ''CSV written to out.csv/summary.csv''])
   \<and> \<not> sublist ''.json'' ''results/summary''
   \<and> str_replace ''.json'' ''.csv'' ''results/summary'' = ''results/summary''
   \<and> design example_solver 50 1.225 6 0.5 3 ''brushless'' ''results/summary'' Map.empty =
        Inr ([''results/summary'' \<mapsto> CsvTable (map fst example_summary) [map snd example_summary]],
             [''Design written to results/summary'', ''CSV written to results/summary''])"
proof -
  have ok: "example_solver (cli_config 50 1.225 6 0.5 3 ''brushless'') = Inr example_summary"
    by (simp add: example_solver_def)
  have no: "\<not> sublist ''.json'' ''results/summary''"
    by (simp add: sublist_Cons_right)
  have segs: "(\<forall>s \<in> set [''out'', ''/summary'']. \<not> sublist ''.json'' s) \<and> \<not> sublist ''.json'' ''''
      \<and> ''out.json/summary.json'' = concat (map (\<lambda>s. s @ ''.json'') [''out'', ''/summary'']) @ ''''"
    by (simp add: sublist_Cons_right)
  from design_csv_path [of example_solver 50 "1.225" 6 "0.5" 3 "''brushless''" example_summary
      "''out.json/summary.json''" Map.empty] ok
  have "\<forall>ps q. (\<forall>s \<in> set ps. \<not> sublist ''.json'' s) \<and> \<not> sublist ''.json'' q
          \<and> ''out.json/summary.json'' = concat (map (\<lambda>s. s @ ''.json'') ps) @ q \<longrightarrow>
          design example_solver 50 1.225 6 0.5 3 ''brushless'' ''out.json/summary.json'' Map.empty =
            Inr ((Map.empty(''out.json/summary.json'' \<mapsto> JsonObject example_summary))
                   (concat (map (\<lambda>s. s @ ''.csv'') ps) @ q \<mapsto>
                      CsvTable (map fst example_summary) [map snd example_summary]),
                 [''Design written to '' @ ''out.json/summary.json'',
                  ''CSV written to '' @ concat (map (\<lambda>s. s @ ''.csv'') ps) @ q])"
    by blast
  from this [rule_format, of "[''out'', ''/summary'']" "''''", OF segs]
  have 1: "design example_solver 50 1.225 6 0.5 3 ''brushless'' ''out.json/summary.json'' Map.empty =
        Inr ([''out.json/summary.json'' \<mapsto> JsonObject example_summary,
              ''out.csv/summary.csv'' \<mapsto> CsvTable (map fst example_summary) [map snd example_summary]],
             [''Design written to out.json/summary.json'', ''CSV written to out.csv/summary.csv''])"
    by simp
  from design_csv_path [of example_solver 50 "1.225" 6 "0.5" 3 "''brushless''" example_summary
      "''results/summary''" Map.empty] ok no
  have 2: "str_replace ''.json'' ''.csv'' ''results/summary'' = ''results/summary''
   \<and> design example_solver 50 1.225 6 0.5 3 ''brushless'' ''results/summary'' Map.empty =
        Inr ([''results/summary'' \<mapsto> CsvTable (map fst example_summary) [map snd example_summary]],
             [''Design written to results/summary'', ''CSV written to results/summary''])"
    by auto
  from ok no 1 2 show ?thesis by blast
qed

text \<open>
  C8. The command run with \<open>--output summary.txt\<close> on an empty file system ends with
  one file, \<open>summary.txt\<close>, holding the CSV table: the JSON object written first is
  gone, although the command has reported "Design written to summary.txt". With the
  default \<open>summary.json\<close> the same run leaves the JSON object with the eight fields and
  the CSV table \<open>summary.csv\<close> beside it.
\<close>

theorem design_loses_json_without_suffix:
  "design example_solver 50 1.225 6 0.5 3 ''brushless'' ''summary.txt'' Map.empty =
     Inr ([''summary.txt'' \<mapsto> CsvTable (map fst example_summary) [map snd example_summary]],
          [''Design written to summary.txt'', ''CSV written to summary.txt''])
   \<and> design example_solver 50 1.225 6 0.5 3 ''brushless'' ''summary.json'' Map.empty =
     Inr ([''summary.json'' \<mapsto> JsonObject example_summary,
           ''summary.csv'' \<mapsto> CsvTable (map fst example_summary) [map snd example_summary]],
          [''Design written to summary.json'', ''CSV written to summary.csv''])
   \<and> map fst example_summary =
        [''rotor_area'', ''blade_length'', ''tsr'', ''rpm'', ''gear_ratio'', ''generator_type'',
         ''cut_in'', ''cut_out'']"
proof -
  have r1: "str_replace ''.json'' ''.csv'' ''summary.txt'' = ''summary.txt''"
    and r2: "str_replace ''.json'' ''.csv'' ''summary.json'' = ''summary.csv''"
    by simp_all
  have keys: "map fst example_summary =
        [''rotor_area'', ''blade_length'', ''tsr'', ''rpm'', ''gear_ratio'', ''generator_type'',
         ''cut_in'', ''cut_out'']"
    by (simp add: example_summary_def)
  have d1: "design example_solver 50 1.225 6 0.5 3 ''brushless'' ''summary.txt'' Map.empty =
     Inr ([''summary.txt'' \<mapsto> CsvTable (map fst example_summary) [map snd example_summary]],
          [''Design written to summary.txt'', ''CSV written to summary.txt''])"
    unfolding design_def Let_def r1 by (simp add: example_solver_def)
  have d2: "design example_solver 50 1.225 6 0.5 3 ''brushless'' ''summary.json'' Map.empty =
     Inr ([''summary.json'' \<mapsto> JsonObject example_summary,
           ''summary.csv'' \<mapsto> CsvTable (map fst example_summary) [map snd example_summary]],
          [''Design written to summary.json'', ''CSV written to summary.csv''])"
    unfolding design_def Let_def r2 by (simp add: example_solver_def)
  from d1 d2 keys show ?thesis by blast
qed

section \<open>Properties of the desktop form\<close>

lemma gui_config_Inr:
  assumes "gui_config py_float py_int self = Inr cfg"
  shows "py_float (wattage self) = Some (target_wattage cfg)"
    and "py_float (DesignApp.air_density self) = Some (Env.air_density (env cfg))"
    and "py_float (DesignApp.wind_speed self) = Some (Env.wind_speed (env cfg))"
    and "py_float (radius self) = Some (blade_radius (constraints cfg))"
    and "py_int (blades self) = Some (num_blades (constraints cfg))"
    and "Constraints.generator_type (constraints cfg) = Brushless"
  using assms by (auto simp: gui_config_def split: option.splits)

text \<open>
  C9. What Generate does, for every content of the form. When the five texts parse, the
  configuration handed to the solver holds the five parsed values (target wattage, air
  density, wind speed, blade radius, number of blades) and the generator type
  \<open>Brushless\<close>: the form has no input for the generator type, and no content of it
  yields another one. The dialog is then the failure dialog with the solver's error
  when the solver fails, and the summary otherwise. When a text does not parse, the
  dialog is the failure dialog with the error of the first such text, and the solver is
  not called.
\<close>

theorem generate_always_brushless:
  "(\<forall>cfg. gui_config py_float py_int self = Inr cfg \<longrightarrow>
        Constraints.generator_type (constraints cfg) = Brushless)
   \<and> (\<forall>wt ad ws r b.
        py_float (wattage self) = Some wt \<and> py_float (DesignApp.air_density self) = Some ad
        \<and> py_float (DesignApp.wind_speed self) = Some ws \<and> py_float (radius self) = Some r
        \<and> py_int (blades self) = Some b \<longrightarrow>
          gui_config py_float py_int self =
            Inr \<lparr>target_wattage = wt,
                 env = \<lparr>Env.air_density = ad, Env.wind_speed = ws\<rparr>,
                 constraints = \<lparr>blade_radius = r, num_blades = b,
                                 Constraints.generator_type = Brushless\<rparr>\<rparr>
        \<and> generate py_float py_int solver self =
            (case solver \<lparr>target_wattage = wt,
                           env = \<lparr>Env.air_density = ad, Env.wind_speed = ws\<rparr>,
                           constraints = \<lparr>blade_radius = r, num_blades = b,
                                           Constraints.generator_type = Brushless\<rparr>\<rparr> of
               Inl e \<Rightarrow> Critical (SolverError e)
             | Inr summary \<Rightarrow> Information summary))
   \<and> (py_float (wattage self) = None \<longrightarrow>
        generate py_float py_int solver self = Critical (ValueError (wattage self)))
   \<and> (py_float (wattage self) \<noteq> None \<and> py_float (DesignApp.air_density self) = None \<longrightarrow>
        generate py_float py_int solver self = Critical (ValueError (DesignApp.air_density self)))
   \<and> (py_float (wattage self) \<noteq> None \<and> py_float (DesignApp.air_density self) \<noteq> None
        \<and> py_float (DesignApp.wind_speed self) = None \<longrightarrow>
        generate py_float py_int solver self = Critical (ValueError (DesignApp.wind_speed self)))
   \<and> (py_float (wattage self) \<noteq> None \<and> py_float (DesignApp.air_density self) \<noteq> None
        \<and> py_float (DesignApp.wind_speed self) \<noteq> None \<and> py_float (radius self) = None \<longrightarrow>
        generate py_float py_int solver self = Critical (ValueError (radius self)))
   \<and> (py_float (wattage self) \<noteq> None \<and> py_float (DesignApp.air_density self) \<noteq> None
        \<and> py_float (DesignApp.wind_speed self) \<noteq> None \<and> py_float (radius self) \<noteq> None
        \<and> py_int (blades self) = None \<longrightarrow>
        generate py_float py_int solver self = Critical (ValueError (blades self)))"
proof (intro conjI allI impI)
  fix cfg assume "gui_config py_float py_int self = Inr cfg"
  then show "Constraints.generator_type (constraints cfg) = Brushless"
    by (rule gui_config_Inr)
next
  fix wt ad ws r b
  assume parsed: "py_float (wattage self) = Some wt \<and> py_float (DesignApp.air_density self) = Some ad
        \<and> py_float (DesignApp.wind_speed self) = Some ws \<and> py_float (radius self) = Some r
        \<and> py_int (blades self) = Some b"
  then show cfg: "gui_config py_float py_int self =
            Inr \<lparr>target_wattage = wt,
                 env = \<lparr>Env.air_density = ad, Env.wind_speed = ws\<rparr>,
                 constraints = \<lparr>blade_radius = r, num_blades = b,
                                 Constraints.generator_type = Brushless\<rparr>\<rparr>"
    by (simp add: gui_config_def)
  show "generate py_float py_int solver self =
            (case solver \<lparr>target_wattage = wt,
                           env = \<lparr>Env.air_density = ad, Env.wind_speed = ws\<rparr>,
                           constraints = \<lparr>blade_radius = r, num_blades = b,
                                           Constraints.generator_type = Brushless\<rparr>\<rparr> of
               Inl e \<Rightarrow> Critical (SolverError e)
             | Inr summary \<Rightarrow> Information summary)"
    by (simp add: generate_def cfg)
next
  assume "py_float (wattage self) = None"
  then show "generate py_float py_int solver self = Critical (ValueError (wattage self))"
    by (simp add: generate_def gui_config_def)
next
  assume "py_float (wattage self) \<noteq> None \<and> py_float (DesignApp.air_density self) = None"
  then show "generate py_float py_int solver self = Critical (ValueError (DesignApp.air_density self))"
    by (auto simp: generate_def gui_config_def)
next
  assume "py_float (wattage self) \<noteq> None \<and> py_float (DesignApp.air_density self) \<noteq> None
        \<and> py_float (DesignApp.wind_speed self) = None"
  then show "generate py_float py_int solver self = Critical (ValueError (DesignApp.wind_speed self))"
    by (auto simp: generate_def gui_config_def)
next
  assume "py_float (wattage self) \<noteq> None \<and> py_float (DesignApp.air_density self) \<noteq> None
        \<and> py_float (DesignApp.wind_speed self) \<noteq> None \<and> py_float (radius self) = None"
  then show "generate py_float py_int solver self = Critical (ValueError (radius self))"
    by (auto simp: generate_def gui_config_def)
next
  assume "py_float (wattage self) \<noteq> None \<and> py_float (DesignApp.air_density self) \<noteq> None
        \<and> py_float (DesignApp.wind_speed self) \<noteq> None \<and> py_float (radius self) \<noteq> None
        \<and> py_int (blades self) = None"
  then show "generate py_float py_int solver self = Critical (ValueError (blades self))"
    by (auto simp: generate_def gui_config_def)
qed

text \<open>
  On the form as it starts (target 50, air density 1.225, wind speed 6, radius 0.5,
  3 blades) Generate builds the configuration that the command line builds with
  \<open>--generator brushless\<close>; the configuration of \<open>--generator brushed\<close>, which differs
  from it in the generator type alone, cannot be had from the form. A solver error
  gives the failure dialog, a summary the summary dialog, and the text \<open>abc\<close> for the
  wattage the failure dialog of the parse error.
\<close>

theorem generate_always_brushless_witness:
  "gui_config initial_float initial_int DesignApp_init
       = Inr (cli_config 50 1.225 6 0.5 3 ''brushless'')
   \<and> Constraints.generator_type (constraints (cli_config 50 1.225 6 0.5 3 ''brushless'')) = Brushless
   \<and> Constraints.generator_type (constraints (cli_config 50 1.225 6 0.5 3 ''brushed'')) = Brushed
   \<and> gui_config initial_float initial_int DesignApp_init
       \<noteq> Inr (cli_config 50 1.225 6 0.5 3 ''brushed'')
   \<and> generate initial_float initial_int (\<lambda>cfg. Inl SolverDidNotConverge) DesignApp_init
        = Critical (SolverError SolverDidNotConverge)
   \<and> generate initial_float initial_int example_solver DesignApp_init = Information example_summary
   \<and> generate initial_float initial_int example_solver (DesignApp_init\<lparr>wattage := ''abc''\<rparr>)
        = Critical (ValueError ''abc'')"
proof -
  have parsed: "initial_float (wattage DesignApp_init) = Some 50
      \<and> initial_float (DesignApp.air_density DesignApp_init) = Some 1.225
      \<and> initial_float (DesignApp.wind_speed DesignApp_init) = Some 6
      \<and> initial_float (radius DesignApp_init) = Some 0.5
      \<and> initial_int (blades DesignApp_init) = Some 3"
    by (simp add: DesignApp_init_def initial_float_def initial_int_def)
  have cli: "cli_config 50 1.225 6 0.5 3 ''brushless'' =
      \<lparr>target_wattage = 50, env = \<lparr>Env.air_density = 1.225, Env.wind_speed = 6\<rparr>,
       constraints = \<lparr>blade_radius = 0.5, num_blades = 3,
                       Constraints.generator_type = Brushless\<rparr>\<rparr>"
    by (simp add: cli_config_def)
  have brushed: "Constraints.generator_type (constraints (cli_config 50 1.225 6 0.5 3 ''brushed''))
      = Brushed"
    by (simp add: cli_config_def)
  have bad: "initial_float (wattage (DesignApp_init\<lparr>wattage := ''abc''\<rparr>)) = None"
    by (simp add: initial_float_def)
  note g = generate_always_brushless
    [of initial_float initial_int DesignApp_init]
  from g [of example_solver] parsed
  have 1: "gui_config initial_float initial_int DesignApp_init
       = Inr (cli_config 50 1.225 6 0.5 3 ''brushless'')"
    unfolding cli by blast
  from g [of example_solver] 1
  have 2: "Constraints.generator_type (constraints (cli_config 50 1.225 6 0.5 3 ''brushless''))
      = Brushless"
    by blast
  from 1 2 brushed
  have 3: "gui_config initial_float initial_int DesignApp_init
       \<noteq> Inr (cli_config 50 1.225 6 0.5 3 ''brushed'')"
    by auto
  from g [of "\<lambda>cfg. Inl SolverDidNotConverge"] parsed
  have "generate initial_float initial_int (\<lambda>cfg. Inl SolverDidNotConverge) DesignApp_init
      = (case (Inl SolverDidNotConverge :: error + summary_dict) of
           Inl e \<Rightarrow> Critical (SolverError e) | Inr summary \<Rightarrow> Information summary)"
    by blast
  then have 4: "generate initial_float initial_int (\<lambda>cfg. Inl SolverDidNotConverge) DesignApp_init
        = Critical (SolverError SolverDidNotConverge)"
    by simp
  from g [of example_solver] parsed
  have "generate initial_float initial_int example_solver DesignApp_init
      = (case example_solver \<lparr>target_wattage = 50,
                env = \<lparr>Env.air_density = 1.225, Env.wind_speed = 6\<rparr>,
                constraints = \<lparr>blade_radius = 0.5, num_blades = 3,
                                Constraints.generator_type = Brushless\<rparr>\<rparr> of
           Inl e \<Rightarrow> Critical (SolverError e) | Inr summary \<Rightarrow> Information summary)"
    by blast
  then have 5: "generate initial_float initial_int example_solver DesignApp_init
      = Information example_summary"
    by (simp add: example_solver_def)
  from generate_always_brushless
    [of initial_float initial_int "DesignApp_init\<lparr>wattage := ''abc''\<rparr>" example_solver] bad
  have 6: "generate initial_float initial_int example_solver (DesignApp_init\<lparr>wattage := ''abc''\<rparr>)
        = Critical (ValueError ''abc'')"
    by simp
  from 1 2 brushed 3 4 5 6 show ?thesis by blast
qed

section \<open>Properties of the design solver\<close>

lemma validate_Some_iff:
  "(\<exists>f. validate cfg = Some f) \<longleftrightarrow>
     (Env.air_density (env cfg) \<le> 0 \<or> Env.wind_speed (env cfg) \<le> 0
      \<or> blade_radius (constraints cfg) \<le> 0 \<or> num_blades (constraints cfg) < 1
      \<or> target_wattage cfg \<le> 0)"
  by (auto simp: validate_def)

lemma validate_offending: "validate cfg = Some f \<Longrightarrow> offending cfg f"
  by (auto simp: validate_def offending_def split: if_splits)

text \<open>
  C3. A configuration with \<open>air_density \<le> 0\<close>, \<open>wind_speed \<le> 0\<close>,
  \<open>blade_radius \<le> 0\<close>, \<open>num_blades < 1\<close> or \<open>target_wattage \<le> 0\<close> is rejected by the
  validation with the name of an offending field, and the solver returns
  \<open>InvalidInput\<close> with that name for every aerodynamic model: the result is fixed
  before the model is consulted (before any numeric search), and it is never a summary.
\<close>

theorem invalid_input_rejected:
  assumes "Env.air_density (env cfg) \<le> 0 \<or> Env.wind_speed (env cfg) \<le> 0
      \<or> blade_radius (constraints cfg) \<le> 0 \<or> num_blades (constraints cfg) < 1
      \<or> target_wattage cfg \<le> 0"
  shows "\<exists>f. validate cfg = Some f \<and> offending cfg f
           \<and> (\<forall>m. solve m cfg = Inl (InvalidInput f))"
proof -
  from assms obtain f where f: "validate cfg = Some f"
    using validate_Some_iff [of cfg] by blast
  then have "offending cfg f" by (rule validate_offending)
  moreover from f have "\<forall>m. solve m cfg = Inl (InvalidInput f)"
    by (simp add: solve_def)
  ultimately show ?thesis using f by blast
qed

theorem invalid_input_rejected_witness:
  "Env.air_density (env \<lparr>target_wattage = 50, env = \<lparr>Env.air_density = 0, Env.wind_speed = 6\<rparr>,
       constraints = scenario_constraints\<rparr>) \<le> 0
   \<and> validate \<lparr>target_wattage = 50, env = \<lparr>Env.air_density = 0, Env.wind_speed = 6\<rparr>,
       constraints = scenario_constraints\<rparr> = Some ''air_density''
   \<and> solve example_model \<lparr>target_wattage = 50, env = \<lparr>Env.air_density = 0, Env.wind_speed = 6\<rparr>,
       constraints = scenario_constraints\<rparr> = Inl (InvalidInput ''air_density'')"
proof -
  let ?cfg = "\<lparr>target_wattage = 50, env = \<lparr>Env.air_density = 0, Env.wind_speed = 6\<rparr>,
       constraints = scenario_constraints\<rparr>"
  have h: "Env.air_density (env ?cfg) \<le> 0" by simp
  then have "Env.air_density (env ?cfg) \<le> 0 \<or> Env.wind_speed (env ?cfg) \<le> 0
      \<or> blade_radius (constraints ?cfg) \<le> 0 \<or> num_blades (constraints ?cfg) < 1
      \<or> target_wattage ?cfg \<le> 0" by blast
  from invalid_input_rejected [OF this] obtain f where
    f: "validate ?cfg = Some f" and s: "\<forall>m. solve m ?cfg = Inl (InvalidInput f)" by blast
  have "validate ?cfg = Some ''air_density''" by (simp add: validate_def)
  with f have "f = ''air_density''" by simp
  with h f s show ?thesis by blast
qed

lemma bisect_within_bracket:
  assumes "lo < hi" and "bisect P target lo hi n = Some t"
  shows "lo < t \<and> t < hi"
  using assms
proof (induction n arbitrary: lo hi)
  case 0
  then show ?case by (auto simp: Let_def split: if_splits)
next
  case (Suc n)
  let ?mid = "(lo + hi) / 2"
  from Suc.prems(1) have mid: "lo < ?mid" "?mid < hi" by simp_all
  show ?case
  proof (cases "\<bar>P ?mid - target\<bar> < TOLERANCE * target")
    case True
    with Suc.prems(2) have "t = ?mid" by (simp add: Let_def)
    with mid show ?thesis by simp
  next
    case far: False
    show ?thesis
    proof (cases "P ?mid < target")
      case True
      with far Suc.prems(2) have "bisect P target ?mid hi n = Some t"
        by (simp add: Let_def)
      from Suc.IH [OF mid(2) this] mid show ?thesis by simp
    next
      case False
      with far Suc.prems(2) have "bisect P target lo ?mid n = Some t"
        by (simp add: Let_def)
      from Suc.IH [OF mid(1) this] mid show ?thesis by simp
    qed
  qed
qed

lemma bisect_converges:
  assumes rising: "\<And>x y. lo0 \<le> x \<Longrightarrow> x \<le> y \<Longrightarrow> y \<le> hi0 \<Longrightarrow> P x \<le> P y \<and> P y - P x \<le> M * (y - x)"
    and "lo0 \<le> lo" and "lo \<le> hi" and "hi \<le> hi0"
    and "P lo \<le> target" and "target \<le> P hi"
    and "M * (hi - lo) < TOLERANCE * target * 2 ^ n"
  shows "\<exists>t. bisect P target lo hi n = Some t"
  using assms(2-)
proof (induction n arbitrary: lo hi)
  case 0
  let ?mid = "(lo + hi) / 2"
  from 0 have m: "lo \<le> ?mid" "?mid \<le> hi" by simp_all
  from rising [of lo ?mid] 0 m have a: "P lo \<le> P ?mid" by simp
  from rising [of ?mid hi] 0 m have b: "P ?mid \<le> P hi" by simp
  from rising [of lo hi] 0 have c: "P hi - P lo \<le> M * (hi - lo)" by simp
  from a b c 0 have "\<bar>P ?mid - target\<bar> < TOLERANCE * target" by simp
  then have "bisect P target lo hi 0 = Some ?mid" by (simp add: Let_def)
  then show ?case by (rule exI)
next
  case (Suc n)
  let ?mid = "(lo + hi) / 2"
  from Suc.prems have m: "lo \<le> ?mid" "?mid \<le> hi" by simp_all
  show ?case
  proof (cases "\<bar>P ?mid - target\<bar> < TOLERANCE * target")
    case True
    then have "bisect P target lo hi (Suc n) = Some ?mid" by (simp add: Let_def)
    then show ?thesis by (rule exI)
  next
    case far: False
    have half: "M * (hi - ?mid) = M * (hi - lo) / 2" "M * (?mid - lo) = M * (hi - lo) / 2"
      by (simp_all add: field_simps)
    from Suc.prems(6) have small: "M * (hi - lo) / 2 < TOLERANCE * target * 2 ^ n"
      by simp
    show ?thesis
    proof (cases "P ?mid < target")
      case True
      have "\<exists>t. bisect P target ?mid hi n = Some t"
      proof (rule Suc.IH)
        show "lo0 \<le> ?mid" using Suc.prems(1) m by simp
        show "?mid \<le> hi" by (rule m)
        show "hi \<le> hi0" by (rule Suc.prems)
        show "P ?mid \<le> target" using True by simp
        show "target \<le> P hi" by (rule Suc.prems)
        show "M * (hi - ?mid) < TOLERANCE * target * 2 ^ n"
          by (simp only: half small)
      qed
      with far True show ?thesis by (simp add: Let_def)
    next
      case False
      have "\<exists>t. bisect P target lo ?mid n = Some t"
      proof (rule Suc.IH)
        show "lo0 \<le> lo" by (rule Suc.prems)
        show "lo \<le> ?mid" by (rule m)
        show "?mid \<le> hi0" using Suc.prems(3) m by simp
        show "P lo \<le> target" by (rule Suc.prems)
        show "target \<le> P ?mid" using False by simp
        show "M * (?mid - lo) < TOLERANCE * target * 2 ^ n"
          by (simp only: half small)
      qed
      with far False show ?thesis by (simp add: Let_def)
    qed
  qed
qed

lemma bisect_accurate:
  assumes "bisect P target lo hi n = Some t"
  shows "\<bar>P t - target\<bar> < TOLERANCE * target"
  using assms
proof (induction n arbitrary: lo hi)
  case 0
  let ?mid = "(lo + hi) / 2"
  show ?case
  proof (cases "\<bar>P ?mid - target\<bar> < TOLERANCE * target")
    case True
    with 0 have tm: "t = ?mid" by (simp add: Let_def)
    show ?thesis unfolding tm by (rule True)
  next
    case False
    with 0 show ?thesis by (simp add: Let_def)
  qed
next
  case (Suc n)
  let ?mid = "(lo + hi) / 2"
  show ?case
  proof (cases "\<bar>P ?mid - target\<bar> < TOLERANCE * target")
    case True
    with Suc.prems have tm: "t = ?mid" by (simp add: Let_def)
    show ?thesis unfolding tm by (rule True)
  next
    case far: False
    show ?thesis
    proof (cases "P ?mid < target")
      case True
      with far Suc.prems have "bisect P target ?mid hi n = Some t" by (simp add: Let_def)
      then show ?thesis by (rule Suc.IH)
    next
      case False
      with far Suc.prems have "bisect P target lo ?mid n = Some t" by (simp add: Let_def)
      then show ?thesis by (rule Suc.IH)
    qed
  qed
qed

lemma availablePower_scale:
  "availablePower Cp t e area = Cp t * (0.5 * Env.air_density e * area * Env.wind_speed e ^ 3)"
  by (simp add: availablePower_def)

lemma power_scale_pos:
  assumes "0 < Env.air_density e" and "0 < Env.wind_speed e" and "0 < blade_radius c"
  shows "0 < 0.5 * Env.air_density e * rotorArea c * Env.wind_speed e ^ 3"
  using assms by (simp add: rotorArea_def)

lemma validate_None:
  assumes "0 < Env.air_density e" and "0 < Env.wind_speed e" and "0 < blade_radius c"
    and "1 \<le> num_blades c" and "0 < w"
  shows "validate \<lparr>target_wattage = w, env = e, constraints = c\<rparr> = None"
  using assms by (simp add: validate_def)

lemma well_posed_peak:
  assumes "well_posed m L"
  shows "0 < powerCoefficient m (tsr_opt m)" and "0 < L * (tsr_opt m - TSR_MIN)"
    and "0 < resolution m L"
proof -
  from assms have a: "0 \<le> powerCoefficient m TSR_MIN"
    and b: "powerCoefficient m TSR_MIN < powerCoefficient m (tsr_opt m)"
    and opt: "TSR_MIN < tsr_opt m"
    by (simp_all add: well_posed_def)
  from a b show peak: "0 < powerCoefficient m (tsr_opt m)" by simp
  from assms opt have "powerCoefficient m (tsr_opt m) - powerCoefficient m TSR_MIN
      \<le> L * (tsr_opt m - TSR_MIN)"
    by (simp add: well_posed_def)
  with b show width: "0 < L * (tsr_opt m - TSR_MIN)" by simp
  have "0 < TOLERANCE * 2 ^ MAX_ITERATIONS * powerCoefficient m (tsr_opt m)"
    using peak by (simp add: TOLERANCE_def)
  with width show "0 < resolution m L"
    unfolding resolution_def by (rule divide_pos_pos)
qed

lemma P_max_pos:
  assumes "0 < Env.air_density e" and "0 < Env.wind_speed e" and "0 < blade_radius c"
    and "well_posed m L"
  shows "0 < P_max m e c"
    and "availablePower (powerCoefficient m) TSR_MIN e (rotorArea c) < P_max m e c"
    and "0 \<le> availablePower (powerCoefficient m) TSR_MIN e (rotorArea c)"
proof -
  define K where "K = 0.5 * Env.air_density e * rotorArea c * Env.wind_speed e ^ 3"
  have K: "0 < K" unfolding K_def using assms(1-3) by (rule power_scale_pos)
  have P: "\<And>t. availablePower (powerCoefficient m) t e (rotorArea c) = powerCoefficient m t * K"
    unfolding K_def by (rule availablePower_scale)
  from assms(4) have a: "0 \<le> powerCoefficient m TSR_MIN"
    and b: "powerCoefficient m TSR_MIN < powerCoefficient m (tsr_opt m)"
    by (simp_all add: well_posed_def)
  from a b have "0 < powerCoefficient m (tsr_opt m)" by simp
  with K show "0 < P_max m e c" by (simp add: P_max_def P)
  from b K show "availablePower (powerCoefficient m) TSR_MIN e (rotorArea c) < P_max m e c"
    by (simp add: P_max_def P)
  from a K show "0 \<le> availablePower (powerCoefficient m) TSR_MIN e (rotorArea c)"
    by (simp add: P)
qed

lemma Cp_peak_is_maximum:
  assumes wp: "well_posed m L" and dom: "TSR_MIN \<le> t" "t \<le> TSR_MAX"
  shows "powerCoefficient m t \<le> powerCoefficient m (tsr_opt m)"
proof (cases "t \<le> tsr_opt m")
  case True
  from wp have "TSR_MIN \<le> t \<and> t \<le> tsr_opt m \<and> tsr_opt m \<le> tsr_opt m \<longrightarrow>
      powerCoefficient m t \<le> powerCoefficient m (tsr_opt m)"
    unfolding well_posed_def by blast
  with dom True show ?thesis by simp
next
  case False
  from wp have "tsr_opt m \<le> tsr_opt m \<and> tsr_opt m \<le> t \<and> t \<le> TSR_MAX \<longrightarrow>
      powerCoefficient m t \<le> powerCoefficient m (tsr_opt m)"
    unfolding well_posed_def by blast
  with dom False show ?thesis by simp
qed

lemma P_max_is_maximum:
  assumes "0 < Env.air_density e" and "0 < Env.wind_speed e" and "0 < blade_radius c"
    and "well_posed m L" and "TSR_MIN \<le> t" and "t \<le> TSR_MAX"
  shows "availablePower (powerCoefficient m) t e (rotorArea c) \<le> P_max m e c"
proof -
  define K where "K = 0.5 * Env.air_density e * rotorArea c * Env.wind_speed e ^ 3"
  have K: "0 < K" unfolding K_def using assms(1-3) by (rule power_scale_pos)
  have P: "\<And>t. availablePower (powerCoefficient m) t e (rotorArea c) = powerCoefficient m t * K"
    unfolding K_def by (rule availablePower_scale)
  from assms(4-6) have "powerCoefficient m t \<le> powerCoefficient m (tsr_opt m)"
    by (rule Cp_peak_is_maximum)
  with K show ?thesis by (simp add: P_max_def P)
qed

lemma solve_infeasible:
  assumes "0 < Env.air_density e" and "0 < Env.wind_speed e" and "0 < blade_radius c"
    and "1 \<le> num_blades c" and "0 < w" and "P_max m e c < w"
  shows "solve m \<lparr>target_wattage = w, env = e, constraints = c\<rparr> = Inl (InfeasibleDesign (P_max m e c))"
proof -
  have "validate \<lparr>target_wattage = w, env = e, constraints = c\<rparr> = None"
    using assms(1-5) by (rule validate_None)
  with assms(6) show ?thesis by (simp add: solve_def Let_def)
qed

lemma solve_root_found:
  assumes "0 < Env.air_density e" and "0 < Env.wind_speed e" and "0 < blade_radius c"
    and "1 \<le> num_blades c" and "0 < w" and "w \<le> P_max m e c"
    and "bisect (\<lambda>t. availablePower (powerCoefficient m) t e (rotorArea c)) w
           TSR_MIN (tsr_opt m) MAX_ITERATIONS = Some t"
  shows "\<exists>s. solve m \<lparr>target_wattage = w, env = e, constraints = c\<rparr> = Inr s \<and> tsr s = t"
proof -
  have v: "validate \<lparr>target_wattage = w, env = e, constraints = c\<rparr> = None"
    using assms(1-5) by (rule validate_None)
  from assms(3) obtain n where n: "shaftRpm t (Env.wind_speed e) (blade_radius c) = Some n"
    by (simp add: shaftRpm_def Let_def)
  from assms(6) have le: "\<not> P_max m e c < w" by simp
  show ?thesis
    by (simp add: solve_def Let_def v le assms(7) n)
qed

lemma solve_succeeds_below_P_max:
  assumes env_ok: "0 < Env.air_density e" "0 < Env.wind_speed e"
    and con_ok: "0 < blade_radius c" "1 \<le> num_blades c"
    and wp: "well_posed m L"
    and lower: "availablePower (powerCoefficient m) TSR_MIN e (rotorArea c) \<le> w"
    and res: "resolution m L * P_max m e c < w"
    and upper: "w \<le> P_max m e c"
  shows "\<exists>s. solve m \<lparr>target_wattage = w, env = e, constraints = c\<rparr> = Inr s
           \<and> TSR_MIN < tsr s \<and> tsr s < tsr_opt m
           \<and> \<bar>availablePower (powerCoefficient m) (tsr s) e (rotorArea c) - w\<bar> < TOLERANCE * w"
proof -
  define K where "K = 0.5 * Env.air_density e * rotorArea c * Env.wind_speed e ^ 3"
  define A where "A = powerCoefficient m (tsr_opt m)"
  define W where "W = L * (tsr_opt m - TSR_MIN)"
  define T where "T = TOLERANCE * 2 ^ MAX_ITERATIONS"
  let ?Cp = "powerCoefficient m"
  let ?P = "\<lambda>t. availablePower ?Cp t e (rotorArea c)"
  have K: "0 < K" unfolding K_def using env_ok con_ok(1) by (rule power_scale_pos)
  have P: "\<And>t. ?P t = ?Cp t * K" unfolding K_def by (rule availablePower_scale)
  have A: "0 < A" and W: "0 < W" and R: "0 < resolution m L"
    unfolding A_def W_def using wp by (rule well_posed_peak)+
  have T: "0 < T" unfolding T_def by (simp add: TOLERANCE_def)
  have pm: "P_max m e c = A * K" by (simp only: P_max_def P A_def)
  have pos: "0 < P_max m e c" using env_ok con_ok(1) wp by (rule P_max_pos)
  from R pos have "0 < resolution m L * P_max m e c" by (rule mult_pos_pos)
  with res have w: "0 < w" by simp
  from wp have opt: "TSR_MIN < tsr_opt m" by (simp add: well_posed_def)
  have rising: "?P x \<le> ?P y \<and> ?P y - ?P x \<le> (K * L) * (y - x)"
    if "TSR_MIN \<le> x" "x \<le> y" "y \<le> tsr_opt m" for x y
  proof -
    from wp that have a: "?Cp x \<le> ?Cp y" and b: "?Cp y - ?Cp x \<le> L * (y - x)"
      by (simp_all add: well_posed_def)
    from a K have 1: "?Cp x * K \<le> ?Cp y * K" by simp
    from b K have "(?Cp y - ?Cp x) * K \<le> (L * (y - x)) * K" by simp
    then have 2: "?Cp y * K - ?Cp x * K \<le> (K * L) * (y - x)"
      by (simp add: algebra_simps)
    from 1 2 show ?thesis by (simp only: P)
  qed
  have small: "(K * L) * (tsr_opt m - TSR_MIN) < TOLERANCE * w * 2 ^ MAX_ITERATIONS"
  proof -
    have r: "resolution m L = W / (T * A)"
      by (simp only: resolution_def W_def T_def A_def)
    have "resolution m L * P_max m e c = W * K / T"
      unfolding r pm using A T by (simp add: field_simps)
    with res have "W * K / T < w" by simp
    with T have "W * K < w * T" by (simp add: field_simps)
    then have "K * W < T * w" by (simp only: mult.commute)
    then show ?thesis
      unfolding W_def T_def by (simp only: mult.commute mult.assoc mult.left_commute)
  qed
  have "\<exists>t. bisect ?P w TSR_MIN (tsr_opt m) MAX_ITERATIONS = Some t"
  proof (rule bisect_converges [where ?lo0.0 = TSR_MIN and ?hi0.0 = "tsr_opt m" and M = "K * L"])
    show "?P x \<le> ?P y \<and> ?P y - ?P x \<le> (K * L) * (y - x)"
      if "TSR_MIN \<le> x" "x \<le> y" "y \<le> tsr_opt m" for x y
      using that by (rule rising)
    show "TSR_MIN \<le> TSR_MIN" by simp
    show "TSR_MIN \<le> tsr_opt m" using opt by simp
    show "tsr_opt m \<le> tsr_opt m" by simp
    show "?P TSR_MIN \<le> w" by (rule lower)
    show "w \<le> ?P (tsr_opt m)" using upper by (simp only: P_max_def)
    show "(K * L) * (tsr_opt m - TSR_MIN) < TOLERANCE * w * 2 ^ MAX_ITERATIONS"
      by (rule small)
  qed
  then obtain t where t: "bisect ?P w TSR_MIN (tsr_opt m) MAX_ITERATIONS = Some t" ..
  from bisect_within_bracket [OF opt t] have bounds: "TSR_MIN < t \<and> t < tsr_opt m" .
  from bisect_accurate [OF t] have acc: "\<bar>?P t - w\<bar> < TOLERANCE * w" .
  from solve_root_found [OF env_ok con_ok w upper t] bounds acc show ?thesis by auto
qed

text \<open>
  C1. For a valid environment and valid constraints, and a Cp curve that meets section
  4.1 (\<open>well_posed\<close>, rising to \<open>tsr_opt\<close> and falling after it), there is a maximum
  achievable power: \<open>P_max\<close>, the available power at \<open>tsr_opt\<close>, which lies in the TSR
  domain, is the maximum of the available power over that domain. Every target strictly
  above \<open>P_max\<close> is refused with \<open>InfeasibleDesign\<close> carrying \<open>P_max\<close>. Every target
  below \<open>P_max\<close> down to the power at \<open>TSR_MIN\<close> (and above the fraction of \<open>P_max\<close> that
  the iteration cap resolves) is solved, with a summary whose \<open>tsr\<close> lies strictly
  between \<open>TSR_MIN\<close> and \<open>tsr_opt\<close> and whose power is within the tolerance of the
  target; this range reaches up to \<open>P_max\<close>, so it holds all targets slightly below it.
\<close>

theorem feasibility_boundary:
  assumes env_ok: "0 < Env.air_density e" "0 < Env.wind_speed e"
    and con_ok: "0 < blade_radius c" "1 \<le> num_blades c"
    and wp: "well_posed m L"
  shows "P_max m e c = availablePower (powerCoefficient m) (tsr_opt m) e (rotorArea c)
    \<and> TSR_MIN \<le> tsr_opt m \<and> tsr_opt m \<le> TSR_MAX
    \<and> (\<forall>t. TSR_MIN \<le> t \<and> t \<le> TSR_MAX \<longrightarrow>
            availablePower (powerCoefficient m) t e (rotorArea c) \<le> P_max m e c)
    \<and> (\<forall>w. P_max m e c < w \<longrightarrow>
          solve m \<lparr>target_wattage = w, env = e, constraints = c\<rparr>
            = Inl (InfeasibleDesign (P_max m e c)))
    \<and> (\<forall>w. availablePower (powerCoefficient m) TSR_MIN e (rotorArea c) \<le> w
            \<and> resolution m L * P_max m e c < w \<and> w \<le> P_max m e c \<longrightarrow>
          (\<exists>s. solve m \<lparr>target_wattage = w, env = e, constraints = c\<rparr> = Inr s
                \<and> TSR_MIN < tsr s \<and> tsr s < tsr_opt m
                \<and> \<bar>availablePower (powerCoefficient m) (tsr s) e (rotorArea c) - w\<bar>
                    < TOLERANCE * w))
    \<and> availablePower (powerCoefficient m) TSR_MIN e (rotorArea c) < P_max m e c
    \<and> resolution m L * P_max m e c < P_max m e c
    \<and> (\<exists>d > 0. \<forall>w. P_max m e c - d < w \<and> w < P_max m e c \<longrightarrow>
          (\<exists>s. solve m \<lparr>target_wattage = w, env = e, constraints = c\<rparr> = Inr s
                \<and> tsr s < tsr_opt m))"
proof -
  let ?Pmin = "availablePower (powerCoefficient m) TSR_MIN e (rotorArea c)"
  let ?ok = "\<lambda>w. \<exists>s. solve m \<lparr>target_wattage = w, env = e, constraints = c\<rparr> = Inr s
                \<and> TSR_MIN < tsr s \<and> tsr s < tsr_opt m
                \<and> \<bar>availablePower (powerCoefficient m) (tsr s) e (rotorArea c) - w\<bar>
                    < TOLERANCE * w"
  have pos: "0 < P_max m e c" and lt: "?Pmin < P_max m e c"
    using P_max_pos [OF env_ok con_ok(1) wp] by simp_all
  have 1: "P_max m e c = availablePower (powerCoefficient m) (tsr_opt m) e (rotorArea c)"
    by (simp only: P_max_def)
  from wp have 2: "TSR_MIN \<le> tsr_opt m \<and> tsr_opt m \<le> TSR_MAX"
    by (simp add: well_posed_def)
  have 3: "\<forall>t. TSR_MIN \<le> t \<and> t \<le> TSR_MAX \<longrightarrow>
            availablePower (powerCoefficient m) t e (rotorArea c) \<le> P_max m e c"
    using P_max_is_maximum [OF env_ok con_ok(1) wp] by blast
  have 4: "\<forall>w. P_max m e c < w \<longrightarrow>
          solve m \<lparr>target_wattage = w, env = e, constraints = c\<rparr>
            = Inl (InfeasibleDesign (P_max m e c))"
  proof (intro allI impI)
    fix w assume above: "P_max m e c < w"
    with pos have "0 < w" by simp
    from solve_infeasible [OF env_ok con_ok this above]
    show "solve m \<lparr>target_wattage = w, env = e, constraints = c\<rparr>
            = Inl (InfeasibleDesign (P_max m e c))" .
  qed
  have 5: "\<forall>w. ?Pmin \<le> w \<and> resolution m L * P_max m e c < w \<and> w \<le> P_max m e c \<longrightarrow> ?ok w"
    using solve_succeeds_below_P_max [OF env_ok con_ok wp] by blast
  from wp have "resolution m L < 1" by (simp add: well_posed_def)
  with pos have 7: "resolution m L * P_max m e c < P_max m e c" by simp
  let ?d = "P_max m e c - max ?Pmin (resolution m L * P_max m e c)"
  from lt 7 have d: "0 < ?d" by simp
  have "\<exists>s. solve m \<lparr>target_wattage = w, env = e, constraints = c\<rparr> = Inr s
                \<and> tsr s < tsr_opt m"
    if "P_max m e c - ?d < w \<and> w < P_max m e c" for w
  proof -
    from that have "?Pmin \<le> w \<and> resolution m L * P_max m e c < w \<and> w \<le> P_max m e c"
      by simp
    with 5 have "?ok w" by blast
    then show ?thesis by blast
  qed
  with d have 8: "\<exists>d > 0. \<forall>w. P_max m e c - d < w \<and> w < P_max m e c \<longrightarrow>
          (\<exists>s. solve m \<lparr>target_wattage = w, env = e, constraints = c\<rparr> = Inr s
                \<and> tsr s < tsr_opt m)"
    by blast
  from 1 2 3 4 5 lt 7 8 show ?thesis by blast
qed

lemma pi_ge_3: "3 \<le> pi"
proof -
  have "sin (pi / 6) \<le> pi / 6" by (rule sin_x_le_x) simp
  then show ?thesis by (simp add: sin_30)
qed

lemma example_Cp_rising:
  assumes "1 \<le> x" and "x \<le> y" and "y \<le> 8"
  shows "example_Cp x \<le> example_Cp y"
    and "example_Cp y - example_Cp x \<le> 0.14 * (y - x)"
    and "0.03 \<le> example_Cp x"
proof -
  have sq: "(x - 8)\<^sup>2 - (y - 8)\<^sup>2 = (y - x) * (16 - x - y)"
    by (simp add: power2_eq_square algebra_simps)
  have f1: "0 \<le> y - x" and f2: "0 \<le> 16 - x - y" and f3: "16 - x - y \<le> 14"
    using assms by simp_all
  from f1 f2 have lo: "0 \<le> (y - x) * (16 - x - y)" by (rule mult_nonneg_nonneg)
  from f1 f3 have hi: "(y - x) * (16 - x - y) \<le> (y - x) * 14" by (rule mult_left_mono [rotated])
  have bx: "(x - 8)\<^sup>2 \<le> 49"
  proof -
    have "(x - 8)\<^sup>2 = (8 - x)\<^sup>2" by (simp add: power2_commute)
    also have "\<dots> \<le> 7\<^sup>2" using assms by (intro power_mono) simp_all
    finally show ?thesis by simp
  qed
  from sq lo have by': "(y - 8)\<^sup>2 \<le> (x - 8)\<^sup>2" by simp
  with bx have by'': "(y - 8)\<^sup>2 \<le> 49" by simp
  from bx have "0 \<le> 0.52 - 0.01 * (x - 8)\<^sup>2" by simp
  then have px: "example_Cp x = 0.52 - 0.01 * (x - 8)\<^sup>2"
    unfolding example_Cp_def by (rule max_absorb2)
  from by'' have "0 \<le> 0.52 - 0.01 * (y - 8)\<^sup>2" by simp
  then have py: "example_Cp y = 0.52 - 0.01 * (y - 8)\<^sup>2"
    unfolding example_Cp_def by (rule max_absorb2)
  show "example_Cp x \<le> example_Cp y"
    unfolding px py using by' by simp
  show "example_Cp y - example_Cp x \<le> 0.14 * (y - x)"
    unfolding px py using sq hi by simp
  show "0.03 \<le> example_Cp x"
    unfolding px using bx by simp
qed

lemma example_Cp_falling:
  assumes "8 \<le> x" and "x \<le> y"
  shows "example_Cp y \<le> example_Cp x"
proof -
  have "(x - 8)\<^sup>2 \<le> (y - 8)\<^sup>2" using assms by (intro power_mono) simp_all
  then have "0.52 - 0.01 * (y - 8)\<^sup>2 \<le> 0.52 - 0.01 * (x - 8)\<^sup>2" by simp
  then show ?thesis unfolding example_Cp_def by (rule max.mono [OF order_refl])
qed

lemma example_Cp_ends: "example_Cp 1 = 0.03" "example_Cp 8 = 0.52"
  by (simp_all add: example_Cp_def)

lemma example_model_resolution: "resolution example_model 0.14 < 1 / 2"
proof -
  have sel: "powerCoefficient example_model = example_Cp" "tsr_opt example_model = 8"
    by (simp_all add: example_model_def)
  show ?thesis
    unfolding resolution_def sel TSR_MIN_def example_Cp_ends
    by (simp add: TOLERANCE_def MAX_ITERATIONS_def)
qed

lemma example_model_well_posed: "well_posed example_model 0.14"
proof -
  have sel: "powerCoefficient example_model = example_Cp" "tsr_opt example_model = 8"
    by (simp_all add: example_model_def)
  have rise: "\<forall>x y. TSR_MIN \<le> x \<and> x \<le> y \<and> y \<le> tsr_opt example_model \<longrightarrow>
             powerCoefficient example_model x \<le> powerCoefficient example_model y
             \<and> powerCoefficient example_model y - powerCoefficient example_model x \<le> 0.14 * (y - x)"
    unfolding sel TSR_MIN_def using example_Cp_rising(1,2) by blast
  have fall: "\<forall>x y. tsr_opt example_model \<le> x \<and> x \<le> y \<and> y \<le> TSR_MAX \<longrightarrow>
             powerCoefficient example_model y \<le> powerCoefficient example_model x"
    unfolding sel using example_Cp_falling by blast
  have ends: "TSR_MIN < tsr_opt example_model" "tsr_opt example_model \<le> TSR_MAX"
    "0 \<le> powerCoefficient example_model TSR_MIN"
    "powerCoefficient example_model TSR_MIN < powerCoefficient example_model (tsr_opt example_model)"
    unfolding sel TSR_MIN_def TSR_MAX_def example_Cp_ends by simp_all
  have cap: "resolution example_model 0.14 < 1"
    using example_model_resolution by simp
  from rise fall ends cap show ?thesis
    unfolding well_posed_def by blast
qed

lemma scenario_valid:
  "0 < Env.air_density scenario_env" "0 < Env.wind_speed scenario_env"
  "0 < blade_radius scenario_constraints" "1 \<le> num_blades scenario_constraints"
  by (simp_all add: scenario_env_def scenario_constraints_def)

lemma scenario_power:
  "availablePower (powerCoefficient example_model) t scenario_env (rotorArea scenario_constraints)
     = powerCoefficient example_model t * (33.075 * pi)"
  by (simp add: availablePower_def scenario_env_def scenario_constraints_def rotorArea_def
      power2_eq_square power3_eq_cube)

lemma scenario_P_max: "P_max example_model scenario_env scenario_constraints = 17.199 * pi"
  by (simp add: P_max_def scenario_power) (simp add: example_model_def example_Cp_ends)

lemma scenario_P_min:
  "availablePower (powerCoefficient example_model) TSR_MIN scenario_env
     (rotorArea scenario_constraints) = 0.99225 * pi"
  by (simp add: scenario_power) (simp add: example_model_def TSR_MIN_def example_Cp_ends)

theorem feasibility_boundary_witness:
  "0 < Env.air_density scenario_env \<and> 0 < Env.wind_speed scenario_env
   \<and> 0 < blade_radius scenario_constraints \<and> 1 \<le> num_blades scenario_constraints
   \<and> well_posed example_model 0.14
   \<and> P_max example_model scenario_env scenario_constraints = 17.199 * pi
   \<and> availablePower (powerCoefficient example_model) 15 scenario_env (rotorArea scenario_constraints)
        \<le> P_max example_model scenario_env scenario_constraints
   \<and> solve example_model
        \<lparr>target_wattage = 1000000, env = scenario_env, constraints = scenario_constraints\<rparr>
        = Inl (InfeasibleDesign (P_max example_model scenario_env scenario_constraints))
   \<and> (\<exists>s. solve example_model
              \<lparr>target_wattage = 50, env = scenario_env, constraints = scenario_constraints\<rparr> = Inr s
            \<and> TSR_MIN < tsr s \<and> tsr s < tsr_opt example_model
            \<and> \<bar>availablePower (powerCoefficient example_model) (tsr s) scenario_env
                  (rotorArea scenario_constraints) - 50\<bar> < TOLERANCE * 50)"
proof -
  note fb = feasibility_boundary [OF scenario_valid example_model_well_posed]
  have in_dom: "TSR_MIN \<le> 15 \<and> 15 \<le> TSR_MAX" by (simp add: TSR_MIN_def TSR_MAX_def)
  have big: "P_max example_model scenario_env scenario_constraints < 1000000"
    using pi_less_4 by (simp add: scenario_P_max)
  have lo: "availablePower (powerCoefficient example_model) TSR_MIN scenario_env
            (rotorArea scenario_constraints) \<le> 50"
    using pi_less_4 by (simp add: scenario_P_min)
  have "resolution example_model 0.14 * P_max example_model scenario_env scenario_constraints
      \<le> (1 / 2) * P_max example_model scenario_env scenario_constraints"
    using example_model_resolution pi_ge_3
    by (intro mult_right_mono) (simp_all add: scenario_P_max)
  also have "\<dots> < 50" using pi_less_4 by (simp add: scenario_P_max)
  finally have res: "resolution example_model 0.14
      * P_max example_model scenario_env scenario_constraints < 50" .
  have hi: "50 \<le> P_max example_model scenario_env scenario_constraints"
    using pi_ge_3 by (simp add: scenario_P_max)
  from fb in_dom have 1: "availablePower (powerCoefficient example_model) 15 scenario_env
      (rotorArea scenario_constraints) \<le> P_max example_model scenario_env scenario_constraints"
    by blast
  from fb big have 2: "solve example_model
        \<lparr>target_wattage = 1000000, env = scenario_env, constraints = scenario_constraints\<rparr>
        = Inl (InfeasibleDesign (P_max example_model scenario_env scenario_constraints))"
    by blast
  from fb lo res hi have 3: "\<exists>s. solve example_model
              \<lparr>target_wattage = 50, env = scenario_env, constraints = scenario_constraints\<rparr> = Inr s
            \<and> TSR_MIN < tsr s \<and> tsr s < tsr_opt example_model
            \<and> \<bar>availablePower (powerCoefficient example_model) (tsr s) scenario_env
                  (rotorArea scenario_constraints) - 50\<bar> < TOLERANCE * 50"
    by blast
  from scenario_valid example_model_well_posed scenario_P_max 1 2 3 show ?thesis by blast
qed

end
